theory Spec2Isabelle
  imports Complex_Main "HOL-Library.AList"
begin

section \<open>Strings and paths\<close>

text \<open>
  Python strings are modelled as \<open>string\<close>. \<open>str.lower\<close> is modelled on its ASCII
  range (the letters A to Z); every other character is left as it is.
\<close>

definition lower_char :: "char \<Rightarrow> char" where
  "lower_char c =
     (case map_of (zip ''ABCDEFGHIJKLMNOPQRSTUVWXYZ'' ''abcdefghijklmnopqrstuvwxyz'') c of
        Some d \<Rightarrow> d
      | None \<Rightarrow> c)"

definition lower :: "string \<Rightarrow> string" where
  "lower s = map lower_char s"

text \<open>\<open>s.replace(a, b)\<close> for single characters \<open>a\<close> and \<open>b\<close>.\<close>

definition replace_char :: "char \<Rightarrow> char \<Rightarrow> string \<Rightarrow> string" where
  "replace_char a b s = map (\<lambda>c. if c = a then b else c) s"

text \<open>\<open>str(n)\<close> for a non-negative integer \<open>n\<close> (the length of a list).\<close>

fun str_nat :: "nat \<Rightarrow> string" where
  "str_nat n =
     (if n < 10 then [''0123456789'' ! n]
      else str_nat (n div 10) @ [''0123456789'' ! (n mod 10)])"

declare str_nat.simps [simp del]

text \<open>
  \<open>repr\<close> of a list of strings, as an f-string prints it. The strings printed this way
  by the orchestrator are rendition keys, which hold no quote and no backslash, so
  \<open>repr\<close> of each is the string between single quotes.
\<close>

definition repr_str :: "string \<Rightarrow> string" where
  "repr_str s = [CHR 0x27] @ s @ [CHR 0x27]"

fun join_comma :: "string list \<Rightarrow> string" where
  "join_comma [] = []"
| "join_comma [x] = x"
| "join_comma (x # y # ys) = x @ '', '' @ join_comma (y # ys)"

definition repr_list :: "string list \<Rightarrow> string" where
  "repr_list xs = ''['' @ join_comma (map repr_str xs) @ '']''"

text \<open>
  A \<open>pathlib.Path\<close> (POSIX flavour) is the list of its parts; two paths are equal when
  their parts are. Parsing a string splits it at \<open>/\<close>, drops empty parts and \<open>.\<close>
  parts, and keeps the root as a first part \<open>/\<close>.
\<close>

type_synonym path = "string list"

fun split_slash :: "string \<Rightarrow> string list" where
  "split_slash [] = [[]]"
| "split_slash (c # cs) =
     (if c = CHR ''/'' then [] # split_slash cs
      else (case split_slash cs of
              [] \<Rightarrow> [[c]]
            | p # ps \<Rightarrow> (c # p) # ps))"

definition Path :: "string \<Rightarrow> path" where
  "Path s =
     (if s \<noteq> [] \<and> hd s = CHR ''/'' then [''/''] else []) @
     filter (\<lambda>p. p \<noteq> [] \<and> p \<noteq> ''.'') (split_slash s)"

text \<open>\<open>p / s\<close>: an absolute right operand replaces the left one.\<close>

definition joinpath :: "path \<Rightarrow> string \<Rightarrow> path" where
  "joinpath p s = (if s \<noteq> [] \<and> hd s = CHR ''/'' then Path s else p @ Path s)"

fun join_slash :: "string list \<Rightarrow> string" where
  "join_slash [] = []"
| "join_slash [x] = x"
| "join_slash (x # y # ys) = x @ ''/'' @ join_slash (y # ys)"

text \<open>\<open>str(p)\<close>.\<close>

definition str_path :: "path \<Rightarrow> string" where
  "str_path p =
     (case p of
        [] \<Rightarrow> ''.''
      | r # ps \<Rightarrow> if r = ''/'' then ''/'' @ join_slash ps else join_slash p)"

text \<open>\<open>p.name\<close>: the last part, empty for the root and for the empty path.\<close>

definition name_of :: "path \<Rightarrow> string" where
  "name_of p = (if p = [] \<or> p = [''/''] then [] else last p)"

text \<open>\<open>s.rfind('.')\<close>: the index of the last dot, \<open>None\<close> for Python's \<open>-1\<close>.\<close>

fun rfind_dot :: "string \<Rightarrow> nat option" where
  "rfind_dot [] = None"
| "rfind_dot (c # cs) =
     (case rfind_dot cs of
        Some i \<Rightarrow> Some (Suc i)
      | None \<Rightarrow> if c = CHR ''.'' then Some 0 else None)"

text \<open>
  \<open>p.stem\<close>: the name without its last suffix; a name whose only dot is its first or
  its last character has no suffix.
\<close>

definition stem :: "path \<Rightarrow> string" where
  "stem p =
     (let n = name_of p in
      case rfind_dot n of
        Some i \<Rightarrow> if 0 < i \<and> i < length n - 1 then take i n else n
      | None \<Rightarrow> n)"

text \<open>\<open>p.parent\<close>.\<close>

definition parent :: "path \<Rightarrow> path" where
  "parent p = (if p = [] \<or> p = [''/''] then p else butlast p)"

section \<open>Platform catalogue\<close>

datatype AspectRatio = SQUARE | LANDSCAPE | PORTRAIT

text \<open>The enumeration's values; \<open>TWITTER_LANDSCAPE\<close> is an alias of \<open>LANDSCAPE\<close>.\<close>

fun ratio_value :: "AspectRatio \<Rightarrow> string" where
  "ratio_value SQUARE = ''1:1''"
| "ratio_value LANDSCAPE = ''16:9''"
| "ratio_value PORTRAIT = ''9:16''"

datatype VideoCodec = H264 | H265

datatype AudioCodec = AAC | AAC_LC

record Resolution =
  width :: int
  height :: int

record PlatformConfig =
  name :: string
  supported_formats :: "string list"
  aspect_ratios :: "AspectRatio list"
  max_duration_seconds :: int
  max_file_size_mb :: int
  video_codec :: VideoCodec
  audio_codec :: AudioCodec
  recommended_resolutions :: "(AspectRatio \<times> Resolution) list"
  max_bitrate_kbps :: "int option"
  audio_bitrate_kbps :: int
  notes_ :: "string option"

definition res :: "int \<Rightarrow> int \<Rightarrow> Resolution" where
  "res w h = \<lparr>width = w, height = h\<rparr>"

definition facebook :: PlatformConfig where
  "facebook = \<lparr>name = ''Facebook'', supported_formats = [''mp4'', ''mov''],
     aspect_ratios = [LANDSCAPE, PORTRAIT], max_duration_seconds = 14400,
     max_file_size_mb = 4096, video_codec = H264, audio_codec = AAC_LC,
     recommended_resolutions = [(LANDSCAPE, res 1920 1080), (PORTRAIT, res 1080 1920)],
     max_bitrate_kbps = None, audio_bitrate_kbps = 128,
     notes_ = Some ''Stories limited to 2 minutes''\<rparr>"

definition instagram :: PlatformConfig where
  "instagram = \<lparr>name = ''Instagram'', supported_formats = [''mp4''],
     aspect_ratios = [SQUARE, PORTRAIT], max_duration_seconds = 600,
     max_file_size_mb = 4096, video_codec = H264, audio_codec = AAC,
     recommended_resolutions = [(SQUARE, res 1080 1080), (PORTRAIT, res 1080 1920)],
     max_bitrate_kbps = None, audio_bitrate_kbps = 128,
     notes_ = Some ''Stories/Reels 15-90 seconds recommended''\<rparr>"

definition youtube :: PlatformConfig where
  "youtube = \<lparr>name = ''YouTube'', supported_formats = [''mp4'', ''mov'', ''avi'', ''webm''],
     aspect_ratios = [LANDSCAPE, PORTRAIT], max_duration_seconds = 900,
     max_file_size_mb = 131072, video_codec = H264, audio_codec = AAC,
     recommended_resolutions = [(LANDSCAPE, res 1920 1080), (PORTRAIT, res 1080 1920)],
     max_bitrate_kbps = None, audio_bitrate_kbps = 128,
     notes_ = Some ''Shorts limited to 60 seconds, render at 1080p minimum''\<rparr>"

definition tiktok :: PlatformConfig where
  "tiktok = \<lparr>name = ''TikTok'', supported_formats = [''mp4'', ''mov''],
     aspect_ratios = [PORTRAIT], max_duration_seconds = 180,
     max_file_size_mb = 288, video_codec = H264, audio_codec = AAC_LC,
     recommended_resolutions = [(PORTRAIT, res 1080 1920)],
     max_bitrate_kbps = None, audio_bitrate_kbps = 128,
     notes_ = Some ''Forced vertical videos, keep file size small''\<rparr>"

definition twitter :: PlatformConfig where
  "twitter = \<lparr>name = ''Twitter'', supported_formats = [''mp4'', ''mov''],
     aspect_ratios = [SQUARE, LANDSCAPE], max_duration_seconds = 140,
     max_file_size_mb = 512, video_codec = H264, audio_codec = AAC,
     recommended_resolutions = [(SQUARE, res 1080 1080), (LANDSCAPE, res 1280 720)],
     max_bitrate_kbps = None, audio_bitrate_kbps = 128,
     notes_ = Some ''Optimized square videos, shorter lengths recommended''\<rparr>"

definition linkedin :: PlatformConfig where
  "linkedin = \<lparr>name = ''LinkedIn'', supported_formats = [''mp4''],
     aspect_ratios = [LANDSCAPE, SQUARE, PORTRAIT], max_duration_seconds = 180,
     max_file_size_mb = 5120, video_codec = H264, audio_codec = AAC,
     recommended_resolutions =
       [(LANDSCAPE, res 1920 1080), (SQUARE, res 1080 1080), (PORTRAIT, res 1080 1920)],
     max_bitrate_kbps = None, audio_bitrate_kbps = 128,
     notes_ = Some ''16:9 default, supports all ratios, high-quality audio''\<rparr>"

text \<open>The dictionary \<open>PLATFORM_CONFIGS\<close>, in its insertion order.\<close>

definition PLATFORM_CONFIGS :: "(string \<times> PlatformConfig) list" where
  "PLATFORM_CONFIGS =
     [(''facebook'', facebook), (''instagram'', instagram), (''youtube'', youtube),
      (''tiktok'', tiktok), (''twitter'', twitter), (''linkedin'', linkedin)]"

datatype error =
    FileNotFoundError string
  | UnsupportedPlatforms "string list"
  | ValueError string
  | OSError string

text \<open>
  \<open>UnsupportedPlatforms xs\<close> is the \<open>ValueError\<close> of \<open>add_job\<close>, whose message prints
  the list \<open>xs\<close> of offending identifiers; the model keeps the list itself.
\<close>

definition get_platform_config :: "string \<Rightarrow> error + PlatformConfig" where
  "get_platform_config platform =
     (case map_of PLATFORM_CONFIGS (lower platform) of
        None \<Rightarrow> Inl (ValueError (''Unsupported platform: '' @ platform))
      | Some c \<Rightarrow> Inr c)"

definition list_supported_platforms :: "string list" where
  "list_supported_platforms = map fst PLATFORM_CONFIGS"

section \<open>Jobs, configuration and the world\<close>

datatype status = Pending | Processing | Completed | Failed

text \<open>
  The source keeps the status as one of the four strings \<open>pending\<close>, \<open>processing\<close>,
  \<open>completed\<close> and \<open>failed\<close>; no other value is ever assigned.
\<close>

fun status_str :: "status \<Rightarrow> string" where
  "status_str Pending = ''pending''"
| "status_str Processing = ''processing''"
| "status_str Completed = ''completed''"
| "status_str Failed = ''failed''"

text \<open>
  \<open>output_files\<close> is a dictionary in insertion order: an association list with distinct
  keys, updated with \<open>AList.update\<close>. Its values are \<open>str\<close> of the output path, or
  \<open>None\<close> for a rendition that failed.
\<close>

record ProcessingJob =
  job_id :: string
  audio_file :: path
  image_file :: path
  platforms :: "string list"
  status :: status
  output_files :: "(string \<times> string option) list"
  error_message :: "string option"

record AudioMasteringConfig =
  ozone_path :: "string option"
  preset_name :: string
  am_output_format :: string
  bit_depth :: int
  sample_rate :: int
  normalize_loudness :: bool
  target_lufs :: real

record VideoGenerationConfig =
  output_format :: string
  video_bitrate :: "string option"
  audio_bitrate :: string
  fps :: int
  use_gpu_acceleration :: bool
  temp_dir :: "string option"

record WorkflowConfig =
  max_concurrent_jobs :: int
  audio_mastering :: AudioMasteringConfig
  video_generation :: VideoGenerationConfig
  output_base_dir :: string
  log_file :: "string option"
  resume_on_failure :: bool

text \<open>The field defaults of the three configuration classes.\<close>

definition AudioMasteringConfig_default :: AudioMasteringConfig where
  "AudioMasteringConfig_default =
     \<lparr>ozone_path = None, preset_name = ''Master Assistant'', am_output_format = ''wav'',
      bit_depth = 24, sample_rate = 44100, normalize_loudness = True, target_lufs = - 14\<rparr>"

definition VideoGenerationConfig_default :: VideoGenerationConfig where
  "VideoGenerationConfig_default =
     \<lparr>output_format = ''mp4'', video_bitrate = None, audio_bitrate = ''128k'', fps = 30,
      use_gpu_acceleration = True, temp_dir = None\<rparr>"

definition WorkflowConfig_default :: WorkflowConfig where
  "WorkflowConfig_default =
     \<lparr>max_concurrent_jobs = 4, audio_mastering = AudioMasteringConfig_default,
      video_generation = VideoGenerationConfig_default, output_base_dir = ''./output'',
      log_file = None, resume_on_failure = True\<rparr>"

datatype json =
    JNull
  | JBool bool
  | JInt int
  | JFloat real
  | JStr string
  | JList "json list"
  | JDict "(string \<times> json) list"

datatype content = Binary | Document json

text \<open>
  The world outside the orchestrator: the directories and files that exist, and the
  state \<open>ext\<close> of everything else the external tools depend on. A file written by
  \<open>json.dump\<close> holds the document it was given.
\<close>

record 'x world =
  dirs :: "path set"
  files :: "path \<rightharpoonup> content"
  ext :: 'x

text \<open>\<open>p.exists()\<close>; the empty path is the current directory.\<close>

definition path_exists :: "'x world \<Rightarrow> path \<Rightarrow> bool" where
  "path_exists w p \<longleftrightarrow> p = [] \<or> p = [''/''] \<or> p \<in> dirs w \<or> files w p \<noteq> None"

text \<open>The path and its ancestors, the path itself last.\<close>

fun ancestors_and_self :: "path \<Rightarrow> path list" where
  "ancestors_and_self [] = []"
| "ancestors_and_self (x # xs) = [x] # map ((#) x) (ancestors_and_self xs)"

text \<open>
  \<open>p.mkdir(parents=True, exist_ok=True)\<close>: fails when the path or one of its ancestors
  is a file, and otherwise leaves the path and its ancestors as directories.
\<close>

definition mkdir_parents :: "'x world \<Rightarrow> path \<Rightarrow> error + 'x world" where
  "mkdir_parents w p =
     (if \<exists>q \<in> set (ancestors_and_self p). files w q \<noteq> None
      then Inl (OSError (''File exists: '' @ str_path p))
      else Inr (w\<lparr>dirs := dirs w \<union> set (ancestors_and_self p)\<rparr>))"

text \<open>
  The outcome of a stage: it returns \<open>True\<close>, returns \<open>False\<close>, or an exception
  escapes it, with \<open>str\<close> of the exception.
\<close>

datatype outcome = Success | Failure | Raise string

record MasterCall =
  mc_input :: path
  mc_output :: path
  mc_result :: outcome

record RenderCall =
  rc_image :: path
  rc_audio :: path
  rc_output :: path
  rc_platform :: PlatformConfig
  rc_ratio :: AspectRatio
  rc_result :: outcome

text \<open>
  The external tools. \<open>run_mastering\<close> is what \<open>master_audio_file\<close> does once its input
  exists (creating the output directory and running Ozone or FFmpeg); \<open>run_ffmpeg\<close>
  is what \<open>create_video\<close> does once its arguments are validated (creating the output
  directory, preparing the image, running FFmpeg and cleaning up). Both may change the
  world in any way.
\<close>

record 'x env =
  run_mastering :: "'x world \<Rightarrow> path \<Rightarrow> path \<Rightarrow> outcome \<times> 'x world"
  run_ffmpeg ::
    "'x world \<Rightarrow> path \<Rightarrow> path \<Rightarrow> path \<Rightarrow> PlatformConfig \<Rightarrow> AspectRatio \<Rightarrow> outcome \<times> 'x world"

text \<open>
  The orchestrator with the world it runs in. \<open>submitted\<close>, \<open>master_calls\<close> and
  \<open>render_calls\<close> are logs the model keeps: the jobs handed to the worker pool, the
  invocations of \<open>master_audio_file\<close> and the invocations of \<open>create_video\<close>, oldest
  first.
\<close>

record 'x orchestrator =
  config :: WorkflowConfig
  jobs :: "ProcessingJob list"
  world :: "'x world"
  submitted :: "ProcessingJob list"
  master_calls :: "MasterCall list"
  render_calls :: "RenderCall list"

definition output_dir :: "WorkflowConfig \<Rightarrow> path" where
  "output_dir cfg = Path (output_base_dir cfg)"

definition mastered_audio_dir :: "WorkflowConfig \<Rightarrow> path" where
  "mastered_audio_dir cfg = joinpath (output_dir cfg) ''mastered_audio''"

definition videos_dir :: "WorkflowConfig \<Rightarrow> path" where
  "videos_dir cfg = joinpath (output_dir cfg) ''videos''"

section \<open>Adding jobs\<close>

text \<open>
  \<open>add_job\<close> returns the job it made, or the exception it raised, together with the
  orchestrator as the call leaves it.
\<close>

definition add_job ::
  "'x orchestrator \<Rightarrow> string \<Rightarrow> string \<Rightarrow> string list \<Rightarrow> string option \<Rightarrow>
   (error + ProcessingJob) \<times> 'x orchestrator" where
  "add_job s audio img plats jid =
     (let audio_path = Path audio; image_path = Path img in
      if \<not> path_exists (world s) audio_path
      then (Inl (FileNotFoundError (''Audio file not found: '' @ str_path audio_path)), s)
      else if \<not> path_exists (world s) image_path
      then (Inl (FileNotFoundError (''Image file not found: '' @ str_path image_path)), s)
      else
        let supported_platforms = list_supported_platforms;
            invalid_platforms = filter (\<lambda>p. lower p \<notin> set supported_platforms) plats
        in if invalid_platforms \<noteq> [] then (Inl (UnsupportedPlatforms invalid_platforms), s)
           else
             let job_id = (case jid of
                             None \<Rightarrow> stem audio_path @ ''_'' @ str_nat (length (jobs s))
                           | Some i \<Rightarrow> i);
                 job = \<lparr>job_id = job_id, audio_file = audio_path, image_file = image_path,
                        platforms = map lower plats, status = Pending, output_files = [],
                        error_message = None\<rparr>
             in (Inr job, s\<lparr>jobs := jobs s @ [job]\<rparr>))"

section \<open>The stages\<close>

text \<open>\<open>str(e)\<close> of an exception.\<close>

fun error_str :: "error \<Rightarrow> string" where
  "error_str (FileNotFoundError m) = m"
| "error_str (UnsupportedPlatforms xs) = ''Unsupported platforms: '' @ repr_list xs"
| "error_str (ValueError m) = m"
| "error_str (OSError m) = m"

text \<open>
  \<open>AudioMasterer.master_audio_file\<close>: \<open>False\<close> when the input does not exist, and the
  outcome of the tool otherwise. Every invocation is logged with its outcome.
\<close>

definition master_audio_file ::
  "'x env \<Rightarrow> 'x orchestrator \<Rightarrow> path \<Rightarrow> path \<Rightarrow> outcome \<times> 'x orchestrator" where
  "master_audio_file E s input_path output_path =
     (let (r, w) = (if \<not> path_exists (world s) input_path then (Failure, world s)
                    else run_mastering E (world s) input_path output_path)
      in (r, s\<lparr>world := w,
                master_calls := master_calls s @
                  [\<lparr>mc_input = input_path, mc_output = output_path, mc_result = r\<rparr>]\<rparr>))"

text \<open>
  \<open>VideoGenerator.create_video\<close>: \<open>False\<close> when the image or the audio does not exist
  or the aspect ratio is not one of the platform's, and the outcome of the tool
  otherwise. Every invocation is logged with its outcome.
\<close>

definition create_video ::
  "'x env \<Rightarrow> 'x orchestrator \<Rightarrow> path \<Rightarrow> path \<Rightarrow> path \<Rightarrow> PlatformConfig \<Rightarrow> AspectRatio \<Rightarrow>
   outcome \<times> 'x orchestrator" where
  "create_video E s image_path audio_path output_path platform_config aspect_ratio =
     (let (r, w) =
        (if \<not> path_exists (world s) image_path then (Failure, world s)
         else if \<not> path_exists (world s) audio_path then (Failure, world s)
         else if aspect_ratio \<notin> set (aspect_ratios platform_config) then (Failure, world s)
         else run_ffmpeg E (world s) image_path audio_path output_path platform_config
                aspect_ratio)
      in (r, s\<lparr>world := w,
                render_calls := render_calls s @
                  [\<lparr>rc_image = image_path, rc_audio = audio_path, rc_output = output_path,
                    rc_platform = platform_config, rc_ratio = aspect_ratio,
                    rc_result = r\<rparr>]\<rparr>))"

text \<open>The names \<open>create_multi_platform_videos\<close> computes for one platform and ratio.\<close>

definition platform_name :: "PlatformConfig \<Rightarrow> string" where
  "platform_name pc = replace_char CHR '' '' CHR ''_'' (lower (name pc))"

definition platform_output_dir :: "path \<Rightarrow> PlatformConfig \<Rightarrow> path" where
  "platform_output_dir out_dir pc = joinpath out_dir (platform_name pc)"

definition video_output_path ::
  "VideoGenerationConfig \<Rightarrow> path \<Rightarrow> string \<Rightarrow> PlatformConfig \<Rightarrow> AspectRatio \<Rightarrow> path" where
  "video_output_path vc out_dir base_filename pc r =
     (let ratio_suffix = replace_char CHR '':'' CHR ''x'' (ratio_value r);
          output_filename = base_filename @ ''_'' @ platform_name pc @ ''_'' @ ratio_suffix @
                            ''.'' @ output_format vc
      in joinpath (platform_output_dir out_dir pc) output_filename)"

definition rendition_key :: "PlatformConfig \<Rightarrow> AspectRatio \<Rightarrow> string" where
  "rendition_key pc r = name pc @ ''_'' @ ratio_value r"

type_synonym results = "(string \<times> path option) list"

text \<open>
  The inner loop of \<open>create_multi_platform_videos\<close>, over the aspect ratios of one
  platform. \<open>results[key] = v\<close> on a dictionary is \<open>AList.update\<close>. An exception that
  escapes \<open>create_video\<close> ends the loops; the dictionary built so far is lost.
\<close>

fun ratio_loop ::
  "'x env \<Rightarrow> 'x orchestrator \<Rightarrow> path \<Rightarrow> path \<Rightarrow> path \<Rightarrow> string \<Rightarrow> PlatformConfig \<Rightarrow>
   AspectRatio list \<Rightarrow> results \<Rightarrow> (string + results) \<times> 'x orchestrator" where
  "ratio_loop E s image_path audio_path out_dir base_filename pc [] results =
     (Inr results, s)"
| "ratio_loop E s image_path audio_path out_dir base_filename pc (r # rs) results =
     (let output_path =
            video_output_path (video_generation (config s)) out_dir base_filename pc r;
          key = rendition_key pc r
      in case create_video E s image_path audio_path output_path pc r of
           (Raise e, s1) \<Rightarrow> (Inl e, s1)
         | (Success, s1) \<Rightarrow>
             ratio_loop E s1 image_path audio_path out_dir base_filename pc rs
               (AList.update key (Some output_path) results)
         | (Failure, s1) \<Rightarrow>
             ratio_loop E s1 image_path audio_path out_dir base_filename pc rs
               (AList.update key None results))"

text \<open>The outer loop, over the platform configurations.\<close>

fun platform_loop ::
  "'x env \<Rightarrow> 'x orchestrator \<Rightarrow> path \<Rightarrow> path \<Rightarrow> path \<Rightarrow> string \<Rightarrow> PlatformConfig list \<Rightarrow>
   results \<Rightarrow> (string + results) \<times> 'x orchestrator" where
  "platform_loop E s image_path audio_path out_dir base_filename [] results =
     (Inr results, s)"
| "platform_loop E s image_path audio_path out_dir base_filename (pc # pcs) results =
     (case mkdir_parents (world s) (platform_output_dir out_dir pc) of
        Inl e \<Rightarrow> (Inl (error_str e), s)
      | Inr w \<Rightarrow>
          (case ratio_loop E (s\<lparr>world := w\<rparr>) image_path audio_path out_dir base_filename pc
                  (aspect_ratios pc) results of
             (Inl e, s1) \<Rightarrow> (Inl e, s1)
           | (Inr results1, s1) \<Rightarrow>
               platform_loop E s1 image_path audio_path out_dir base_filename pcs results1))"

definition create_multi_platform_videos ::
  "'x env \<Rightarrow> 'x orchestrator \<Rightarrow> path \<Rightarrow> path \<Rightarrow> path \<Rightarrow> PlatformConfig list \<Rightarrow>
   string option \<Rightarrow> (string + results) \<times> 'x orchestrator" where
  "create_multi_platform_videos E s image_path audio_path out_dir plats base_filename =
     platform_loop E s image_path audio_path out_dir
       (case base_filename of None \<Rightarrow> stem audio_path | Some b \<Rightarrow> b) plats []"

section \<open>The pipeline of one job\<close>

definition mastered_audio_path :: "WorkflowConfig \<Rightarrow> ProcessingJob \<Rightarrow> path" where
  "mastered_audio_path cfg job =
     joinpath (mastered_audio_dir cfg) (stem (audio_file job) @ ''_mastered.wav'')"

definition job_videos_dir :: "WorkflowConfig \<Rightarrow> ProcessingJob \<Rightarrow> path" where
  "job_videos_dir cfg job = joinpath (videos_dir cfg) (job_id job)"

text \<open>\<open>[get_platform_config(platform) for platform in job.platforms]\<close>.\<close>

fun get_platform_configs :: "string list \<Rightarrow> error + PlatformConfig list" where
  "get_platform_configs [] = Inr []"
| "get_platform_configs (p # ps) =
     (case get_platform_config p of
        Inl e \<Rightarrow> Inl e
      | Inr c \<Rightarrow> (case get_platform_configs ps of
                   Inl e \<Rightarrow> Inl e
                 | Inr cs \<Rightarrow> Inr (c # cs)))"

text \<open>
  Step 1 of \<open>_process_single_job\<close>: the mastering stage runs unless the mastered audio
  exists and resume mode is on; a skipped stage lets the job go on as a successful one
  does.
\<close>

definition step1_master_audio ::
  "'x env \<Rightarrow> 'x orchestrator \<Rightarrow> ProcessingJob \<Rightarrow> outcome \<times> 'x orchestrator" where
  "step1_master_audio E s job =
     (if \<not> path_exists (world s) (mastered_audio_path (config s) job) \<or>
         \<not> resume_on_failure (config s)
      then master_audio_file E s (audio_file job) (mastered_audio_path (config s) job)
      else (Success, s))"

text \<open>The failure exits of \<open>_process_single_job\<close>.\<close>

definition job_failed :: "ProcessingJob \<Rightarrow> string \<Rightarrow> ProcessingJob" where
  "job_failed job msg = job\<lparr>status := Failed, error_message := Some msg\<rparr>"

text \<open>Step 2 and the update of the job with the results.\<close>

definition step2_generate_videos ::
  "'x env \<Rightarrow> 'x orchestrator \<Rightarrow> ProcessingJob \<Rightarrow> ProcessingJob \<times> 'x orchestrator" where
  "step2_generate_videos E s job =
     (case get_platform_configs (platforms job) of
        Inl e \<Rightarrow> (job_failed job (error_str e), s)
      | Inr platform_configs \<Rightarrow>
          (case create_multi_platform_videos E s (image_file job)
                  (mastered_audio_path (config s) job) (job_videos_dir (config s) job)
                  platform_configs (Some (job_id job)) of
             (Inl e, s1) \<Rightarrow> (job_failed job e, s1)
           | (Inr video_results, s1) \<Rightarrow>
               (let job1 = job\<lparr>output_files :=
                             map (\<lambda>(k, v). (k, map_option str_path v)) video_results\<rparr>;
                    failed_videos = map fst (filter (\<lambda>(k, v). v = None) video_results)
                in if failed_videos \<noteq> []
                   then (job1\<lparr>status := Failed,
                               error_message :=
                                 Some (''Failed to create videos: '' @ repr_list failed_videos)\<rparr>,
                         s1)
                   else (job1\<lparr>status := Completed\<rparr>, s1))))"

text \<open>
  \<open>_process_single_job\<close>. The \<open>except Exception\<close> at the job boundary is the two
  \<open>job_failed\<close> exits that carry the text of an exception.
\<close>

definition process_single_job ::
  "'x env \<Rightarrow> 'x orchestrator \<Rightarrow> ProcessingJob \<Rightarrow> ProcessingJob \<times> 'x orchestrator" where
  "process_single_job E s job0 =
     (let job = job0\<lparr>status := Processing\<rparr> in
      case step1_master_audio E s job of
        (Failure, s1) \<Rightarrow> (job_failed job ''Audio mastering failed'', s1)
      | (Raise e, s1) \<Rightarrow> (job_failed job e, s1)
      | (Success, s1) \<Rightarrow> step2_generate_videos E s1 job)"

section \<open>Processing the queue\<close>

text \<open>
  The status histogram: the dictionary with the four status keys, counted by the loop
  over the jobs.
\<close>

definition status_counts :: "ProcessingJob list \<Rightarrow> status \<Rightarrow> nat" where
  "status_counts js = foldl (\<lambda>c job. c(status job := c (status job) + 1)) (\<lambda>_. 0) js"

text \<open>
  The jobs handed to the pool are run to their end one after the other, in the order
  of submission, and each job is updated in its own place in the list. Jobs that are
  not pending are not touched. The stages are arbitrary functions of the world, so what
  is proved of this run does not rest on how the pool interleaves the jobs; the
  interleaving itself is the step relation of the last section.
\<close>

fun run_jobs ::
  "'x env \<Rightarrow> 'x orchestrator \<Rightarrow> ProcessingJob list \<Rightarrow> ProcessingJob list \<times> 'x orchestrator" where
  "run_jobs E s [] = ([], s)"
| "run_jobs E s (job # js) =
     (if status job = Pending
      then (case process_single_job E s job of
              (job', s1) \<Rightarrow> (case run_jobs E s1 js of (js', s2) \<Rightarrow> (job' # js', s2)))
      else (case run_jobs E s js of (js', s2) \<Rightarrow> (job # js', s2)))"

text \<open>
  \<open>process_all_jobs\<close> returns the histogram, or the exception it raised, together
  with the orchestrator as the call leaves it. \<open>ThreadPoolExecutor\<close> raises
  \<open>ValueError\<close> for a pool size that is not positive; nothing has been submitted then.
\<close>

definition process_all_jobs ::
  "'x env \<Rightarrow> 'x orchestrator \<Rightarrow> (error + (status \<Rightarrow> nat)) \<times> 'x orchestrator" where
  "process_all_jobs E s =
     (if jobs s = [] then (Inr (\<lambda>_. 0), s)
      else
        let jobs_to_process = filter (\<lambda>job. status job = Pending) (jobs s) in
        if jobs_to_process = [] then (Inr (status_counts (jobs s)), s)
        else if max_concurrent_jobs (config s) \<le> 0
        then (Inl (ValueError ''max_workers must be greater than 0''), s)
        else
          (case run_jobs E (s\<lparr>submitted := submitted s @ jobs_to_process\<rparr>) (jobs s) of
             (js', s1) \<Rightarrow> (Inr (status_counts js'), s1\<lparr>jobs := js'\<rparr>)))"

definition get_failed_jobs :: "'x orchestrator \<Rightarrow> ProcessingJob list" where
  "get_failed_jobs s = filter (\<lambda>job. status job = Failed) (jobs s)"

text \<open>The loop of \<open>retry_failed_jobs\<close> over the failed jobs, each reset in its place.\<close>

definition reset_failed :: "ProcessingJob \<Rightarrow> ProcessingJob" where
  "reset_failed job =
     (if status job = Failed then job\<lparr>status := Pending, error_message := None\<rparr> else job)"

definition retry_failed_jobs ::
  "'x env \<Rightarrow> 'x orchestrator \<Rightarrow> (error + (status \<Rightarrow> nat)) \<times> 'x orchestrator" where
  "retry_failed_jobs E s = process_all_jobs E (s\<lparr>jobs := map reset_failed (jobs s)\<rparr>)"

definition clear_jobs :: "'x orchestrator \<Rightarrow> 'x orchestrator" where
  "clear_jobs s = s\<lparr>jobs := []\<rparr>"

section \<open>Construction and report\<close>

text \<open>
  \<open>WorkflowOrchestrator.__init__\<close>: the video generator creates its temporary
  directory, then the orchestrator creates its three output directories. The queue
  and the logs start empty.
\<close>

definition WorkflowOrchestrator :: "WorkflowConfig \<Rightarrow> 'x world \<Rightarrow> error + 'x orchestrator" where
  "WorkflowOrchestrator cfg w =
     (case mkdir_parents w
             (Path (case temp_dir (video_generation cfg) of
                      None \<Rightarrow> ''/tmp/beer_goggles''
                    | Some t \<Rightarrow> if t = [] then ''/tmp/beer_goggles'' else t)) of
        Inl e \<Rightarrow> Inl e
      | Inr w0 \<Rightarrow>
     (case mkdir_parents w0 (output_dir cfg) of
        Inl e \<Rightarrow> Inl e
      | Inr w1 \<Rightarrow>
     (case mkdir_parents w1 (mastered_audio_dir cfg) of
        Inl e \<Rightarrow> Inl e
      | Inr w2 \<Rightarrow>
     (case mkdir_parents w2 (videos_dir cfg) of
        Inl e \<Rightarrow> Inl e
      | Inr w3 \<Rightarrow>
          Inr \<lparr>config = cfg, jobs = [], world = w3, submitted = [], master_calls = [],
               render_calls = []\<rparr>))))"

definition create_workflow_orchestrator ::
  "WorkflowConfig option \<Rightarrow> 'x world \<Rightarrow> error + 'x orchestrator" where
  "create_workflow_orchestrator cfg w =
     WorkflowOrchestrator (case cfg of None \<Rightarrow> WorkflowConfig_default | Some c \<Rightarrow> c) w"

definition json_opt_str :: "string option \<Rightarrow> json" where
  "json_opt_str v = (case v of None \<Rightarrow> JNull | Some x \<Rightarrow> JStr x)"

text \<open>
  \<open>asdict(job)\<close> as \<open>json.dump\<close> with \<open>default=str\<close> writes it: the two paths become
  their strings.
\<close>

definition asdict :: "ProcessingJob \<Rightarrow> json" where
  "asdict job =
     JDict [(''job_id'', JStr (job_id job)),
            (''audio_file'', JStr (str_path (audio_file job))),
            (''image_file'', JStr (str_path (image_file job))),
            (''platforms'', JList (map JStr (platforms job))),
            (''status'', JStr (status_str (status job))),
            (''output_files'', JDict (map (\<lambda>(k, v). (k, json_opt_str v)) (output_files job))),
            (''error_message'', json_opt_str (error_message job))]"

definition audio_mastering_dict :: "AudioMasteringConfig \<Rightarrow> json" where
  "audio_mastering_dict c =
     JDict [(''ozone_path'', json_opt_str (ozone_path c)),
            (''preset_name'', JStr (preset_name c)),
            (''output_format'', JStr (am_output_format c)),
            (''bit_depth'', JInt (bit_depth c)),
            (''sample_rate'', JInt (sample_rate c)),
            (''normalize_loudness'', JBool (normalize_loudness c)),
            (''target_lufs'', JFloat (target_lufs c))]"

definition video_generation_dict :: "VideoGenerationConfig \<Rightarrow> json" where
  "video_generation_dict c =
     JDict [(''output_format'', JStr (output_format c)),
            (''video_bitrate'', json_opt_str (video_bitrate c)),
            (''audio_bitrate'', JStr (audio_bitrate c)),
            (''fps'', JInt (fps c)),
            (''use_gpu_acceleration'', JBool (use_gpu_acceleration c)),
            (''temp_dir'', json_opt_str (temp_dir c))]"

definition count_status :: "status \<Rightarrow> ProcessingJob list \<Rightarrow> nat" where
  "count_status st js = length (filter (\<lambda>j. status j = st) js)"

text \<open>The dictionary \<open>report\<close> of \<open>export_job_report\<close>.\<close>

definition report :: "'x orchestrator \<Rightarrow> json" where
  "report s =
     JDict [(''workflow_config'',
               JDict [(''max_concurrent_jobs'', JInt (max_concurrent_jobs (config s))),
                      (''output_base_dir'', JStr (output_base_dir (config s))),
                      (''audio_mastering'', audio_mastering_dict (audio_mastering (config s))),
                      (''video_generation'',
                         video_generation_dict (video_generation (config s)))]),
            (''jobs'', JList (map asdict (jobs s))),
            (''summary'',
               JDict [(''total_jobs'', JInt (int (length (jobs s)))),
                      (''completed'', JInt (int (count_status Completed (jobs s)))),
                      (''failed'', JInt (int (count_status Failed (jobs s)))),
                      (''pending'', JInt (int (count_status Pending (jobs s))))])]"

text \<open>
  \<open>open(path, 'w')\<close> followed by \<open>json.dump\<close>: fails when the path is a directory or
  its parent is not one, and otherwise leaves the document in the file. The world has
  no permissions and no full disks.
\<close>

definition write_json :: "'x world \<Rightarrow> path \<Rightarrow> json \<Rightarrow> error + 'x world" where
  "write_json w p doc =
     (if p = [] \<or> p = [''/''] \<or> p \<in> dirs w
      then Inl (OSError (''Is a directory: '' @ str_path p))
      else if \<not> (parent p = [] \<or> parent p = [''/''] \<or> parent p \<in> dirs w)
      then Inl (OSError (''No such file or directory: '' @ str_path p))
      else Inr (w\<lparr>files := (files w)(p \<mapsto> Document doc)\<rparr>))"

definition export_job_report :: "'x orchestrator \<Rightarrow> string \<Rightarrow> error + 'x orchestrator" where
  "export_job_report s output_file =
     (let output_path = Path output_file in
      case mkdir_parents (world s) (parent output_path) of
        Inl e \<Rightarrow> Inl e
      | Inr w1 \<Rightarrow>
          (case write_json w1 output_path (report s) of
             Inl e \<Rightarrow> Inl e
           | Inr w2 \<Rightarrow> Inr (s\<lparr>world := w2\<rparr>)))"




section \<open>Reachable states\<close>

text \<open>
  The states an orchestrator goes through: it is constructed, and then its operations
  are called one after the other. Between two calls the world may change in any way.
\<close>

inductive reachable :: "'x env \<Rightarrow> 'x orchestrator \<Rightarrow> bool" for E :: "'x env" where
  r_init: "WorkflowOrchestrator cfg w = Inr s \<Longrightarrow> reachable E s"
| r_add: "reachable E s \<Longrightarrow> reachable E (snd (add_job s audio img plats jid))"
| r_process: "reachable E s \<Longrightarrow> reachable E (snd (process_all_jobs E s))"
| r_retry: "reachable E s \<Longrightarrow> reachable E (snd (retry_failed_jobs E s))"
| r_export: "reachable E s \<Longrightarrow> export_job_report s f = Inr s' \<Longrightarrow> reachable E s'"
| r_clear: "reachable E s \<Longrightarrow> reachable E (clear_jobs s)"
| r_world: "reachable E s \<Longrightarrow> reachable E (s\<lparr>world := w\<rparr>)"

section \<open>The worker pool\<close>

text \<open>
  The run of \<open>process_all_jobs\<close> at the grain of the pool. \<open>queue\<close> holds the
  positions of the submitted jobs that no worker has taken yet, oldest first, and
  \<open>busy\<close> the positions of the jobs that a worker is running. A
  \<open>ThreadPoolExecutor(max_workers=n)\<close> has at most \<open>n\<close> worker threads, each running
  one submitted call at a time, taken from a first-in first-out queue: a job is taken
  only while fewer than \<open>n\<close> workers are busy. The worker that takes a job runs
  \<open>_process_single_job\<close>, which first sets the status to \<open>processing\<close> and ends with
  the job completed or failed; the rest of the pipeline is one step here.
\<close>

record 'x pool =
  orch :: "'x orchestrator"
  queue :: "nat list"
  busy :: "nat list"

definition pending_positions :: "ProcessingJob list \<Rightarrow> nat list" where
  "pending_positions js = filter (\<lambda>i. status (js ! i) = Pending) [0..<length js]"

definition pool_start :: "'x orchestrator \<Rightarrow> 'x pool" where
  "pool_start s =
     \<lparr>orch = s\<lparr>submitted := submitted s @ filter (\<lambda>job. status job = Pending) (jobs s)\<rparr>,
      queue = pending_positions (jobs s), busy = []\<rparr>"

inductive pool_step :: "'x env \<Rightarrow> 'x pool \<Rightarrow> 'x pool \<Rightarrow> bool" for E :: "'x env" where
  take_job:
    "queue p = i # q \<Longrightarrow>
     int (length (busy p)) < max_concurrent_jobs (config (orch p)) \<Longrightarrow>
     pool_step E p
       \<lparr>orch = (orch p)\<lparr>jobs := (jobs (orch p))[i := (jobs (orch p) ! i)\<lparr>status := Processing\<rparr>]\<rparr>,
        queue = q, busy = busy p @ [i]\<rparr>"
| finish_job:
    "i \<in> set (busy p) \<Longrightarrow>
     process_single_job E (orch p) (jobs (orch p) ! i) = (job', s1) \<Longrightarrow>
     pool_step E p
       \<lparr>orch = s1\<lparr>jobs := (jobs (orch p))[i := job']\<rparr>,
        queue = queue p, busy = remove1 i (busy p)\<rparr>"

text \<open>
  The pool states of one call of \<open>process_all_jobs\<close> on the orchestrator \<open>s\<close>: the
  pool is started only when there is a pending job and the pool size is positive.
\<close>

inductive pool_run :: "'x env \<Rightarrow> 'x orchestrator \<Rightarrow> 'x pool \<Rightarrow> bool"
  for E :: "'x env" and s :: "'x orchestrator" where
  pool_begin:
    "filter (\<lambda>job. status job = Pending) (jobs s) \<noteq> [] \<Longrightarrow>
     0 < max_concurrent_jobs (config s) \<Longrightarrow> pool_run E s (pool_start s)"
| pool_next: "pool_run E s p \<Longrightarrow> pool_step E p p' \<Longrightarrow> pool_run E s p'"

section \<open>Example worlds and tools\<close>

text \<open>
  A world with one audio file and one image, and tools that keep a count of their runs
  in \<open>ext\<close>.
\<close>

definition example_world :: "nat world" where
  "example_world =
     \<lparr>dirs = {},
      files = [[''in'', ''a.wav''] \<mapsto> Binary, [''cover.png''] \<mapsto> Binary],
      ext = 0\<rparr>"

text \<open>Tools that always succeed and leave their output file.\<close>

definition tools_ok :: "nat env" where
  "tools_ok =
     \<lparr>run_mastering = (\<lambda>w i out. (Success, w\<lparr>files := (files w)(out \<mapsto> Binary)\<rparr>)),
      run_ffmpeg = (\<lambda>w i a out pc r. (Success, w\<lparr>files := (files w)(out \<mapsto> Binary)\<rparr>))\<rparr>"

text \<open>
  Tools of which the mastering succeeds on its first run only and the rendering never
  succeeds.
\<close>

definition tools_flaky :: "nat env" where
  "tools_flaky =
     \<lparr>run_mastering =
        (\<lambda>w i out.
           if ext w = 0 then (Success, w\<lparr>files := (files w)(out \<mapsto> Binary), ext := 1\<rparr>)
           else (Failure, w)),
      run_ffmpeg = (\<lambda>w i a out pc r. (Failure, w))\<rparr>"

text \<open>Tools of which the rendering fails on its first run only.\<close>

definition tools_second_try :: "nat env" where
  "tools_second_try =
     \<lparr>run_mastering = (\<lambda>w i out. (Success, w\<lparr>files := (files w)(out \<mapsto> Binary)\<rparr>)),
      run_ffmpeg =
        (\<lambda>w i a out pc r. (if ext w = 0 then Failure else Success, w\<lparr>ext := Suc (ext w)\<rparr>))\<rparr>"

text \<open>The orchestrator constructed in the example world.\<close>

definition example_orchestrator :: "WorkflowConfig \<Rightarrow> nat orchestrator" where
  "example_orchestrator cfg =
     (case WorkflowOrchestrator cfg example_world of
        Inr s \<Rightarrow> s
      | Inl e \<Rightarrow> \<lparr>config = cfg, jobs = [], world = example_world, submitted = [],
                  master_calls = [], render_calls = []\<rparr>)"

section \<open>The invariant of the error message\<close>

text \<open>The error message of a job is set exactly when the job has failed.\<close>

definition message_iff_failed :: "ProcessingJob \<Rightarrow> bool" where
  "message_iff_failed j \<longleftrightarrow> (error_message j \<noteq> None) = (status j = Failed)"

text \<open>The job that \<open>add_job\<close> makes of the audio file and the image of the example.\<close>

definition example_job :: ProcessingJob where
  "example_job =
     \<lparr>job_id = ''a_0'', audio_file = [''in'', ''a.wav''], image_file = [''cover.png''],
      platforms = [''tiktok''], status = Pending, output_files = [], error_message = None\<rparr>"

definition example_queued :: "WorkflowConfig \<Rightarrow> nat orchestrator" where
  "example_queued cfg =
     snd (add_job (example_orchestrator cfg) ''in/a.wav'' ''cover.png'' [''tiktok''] None)"

text \<open>The default configuration with resume mode switched off.\<close>

definition config_no_resume :: WorkflowConfig where
  "config_no_resume = WorkflowConfig_default\<lparr>resume_on_failure := False\<rparr>"


text \<open>The example after a run of \<open>process_all_jobs\<close> with tools that succeed.\<close>

definition example_done :: "nat orchestrator" where
  "example_done = snd (process_all_jobs tools_ok (example_queued WorkflowConfig_default))"

text \<open>
  The example with resume mode off and the flaky tools: a first run, in which the
  rendering fails, and then a retry, in which the mastering fails.
\<close>

definition retry_first :: "nat orchestrator" where
  "retry_first = snd (process_all_jobs tools_flaky (example_queued config_no_resume))"

definition retry_second :: "nat orchestrator" where
  "retry_second = snd (retry_failed_jobs tools_flaky retry_first)"

text \<open>
  The example with the platform given twice, and its run with tools of which the first
  rendering fails.
\<close>

definition duplicate_queued :: "nat orchestrator" where
  "duplicate_queued =
     snd (add_job (example_orchestrator WorkflowConfig_default) ''in/a.wav'' ''cover.png''
            [''tiktok'', ''tiktok''] None)"

definition duplicate_done :: "nat orchestrator" where
  "duplicate_done = snd (process_all_jobs tools_second_try duplicate_queued)"

text \<open>The example with the same audio file added twice.\<close>

definition twice_queued :: "nat orchestrator" where
  "twice_queued =
     snd (add_job (example_queued WorkflowConfig_default) ''in/a.wav'' ''cover.png''
            [''youtube''] None)"


section \<open>Renditions and their records\<close>

text \<open>
  The renditions of a list of platform configurations: each entry of the list with each
  of its aspect ratios, in the order of the two loops of
  \<open>create_multi_platform_videos\<close>.
\<close>

definition renditions :: "PlatformConfig list \<Rightarrow> (PlatformConfig \<times> AspectRatio) list" where
  "renditions pcs = concat (map (\<lambda>pc. map (Pair pc) (aspect_ratios pc)) pcs)"

text \<open>The arguments of a logged call of \<open>create_video\<close>.\<close>

definition call_args :: "RenderCall \<Rightarrow> path \<times> path \<times> path \<times> PlatformConfig \<times> AspectRatio" where
  "call_args c = (rc_image c, rc_audio c, rc_output c, rc_platform c, rc_ratio c)"

text \<open>
  What a call leaves in the results: under the key of its rendition, the output path
  when it succeeded and \<open>None\<close> when it did not.
\<close>

definition call_entry :: "RenderCall \<Rightarrow> string \<times> path option" where
  "call_entry c =
     (rendition_key (rc_platform c) (rc_ratio c),
      if rc_result c = Success then Some (rc_output c) else None)"

text \<open>The dictionary made by storing the entries of the calls one after the other.\<close>

definition record_results :: "results \<Rightarrow> RenderCall list \<Rightarrow> results" where
  "record_results d cs = foldl (\<lambda>acc c. AList.update (fst (call_entry c)) (snd (call_entry c)) acc) d cs"

definition job_outputs :: "results \<Rightarrow> (string \<times> string option) list" where
  "job_outputs rs = map (\<lambda>(k, v). (k, map_option str_path v)) rs"

section \<open>Frame properties\<close>

text \<open>What each function leaves as it is, and what it adds to the logs.\<close>

lemma master_audio_file_frame:
  "master_audio_file E s i out = (r, s1) \<Longrightarrow>
     config s1 = config s \<and> jobs s1 = jobs s \<and> submitted s1 = submitted s \<and>
     render_calls s1 = render_calls s \<and>
     master_calls s1 = master_calls s @ [\<lparr>mc_input = i, mc_output = out, mc_result = r\<rparr>]"
  by (auto simp: master_audio_file_def Let_def split: prod.splits if_splits)

lemma create_video_frame:
  "create_video E s i a out pc r = (rv, s1) \<Longrightarrow>
     config s1 = config s \<and> jobs s1 = jobs s \<and> submitted s1 = submitted s \<and>
     master_calls s1 = master_calls s \<and>
     render_calls s1 = render_calls s @
       [\<lparr>rc_image = i, rc_audio = a, rc_output = out, rc_platform = pc, rc_ratio = r,
         rc_result = rv\<rparr>]"
  by (auto simp: create_video_def Let_def split: prod.splits if_splits)

lemma ratio_loop_frame:
  "ratio_loop E s i a od b pc rs results = (rv, s1) \<Longrightarrow>
     config s1 = config s \<and> jobs s1 = jobs s \<and> submitted s1 = submitted s \<and>
     master_calls s1 = master_calls s"
proof (induction rs arbitrary: s results)
  case Nil
  then show ?case by simp
next
  case (Cons r rs)
  obtain o1 s' where cv: "create_video E s i a (video_output_path (video_generation (config s)) od b pc r) pc r = (o1, s')"
    by (cases "create_video E s i a (video_output_path (video_generation (config s)) od b pc r) pc r")
  note fr = create_video_frame[OF cv]
  show ?case
  proof (cases o1)
    case Success
    with Cons.prems cv have "ratio_loop E s' i a od b pc rs (AList.update (rendition_key pc r) (Some (video_output_path (video_generation (config s)) od b pc r)) results) = (rv, s1)"
      by (simp add: Let_def)
    from Cons.IH[OF this] fr show ?thesis by simp
  next
    case Failure
    with Cons.prems cv have "ratio_loop E s' i a od b pc rs (AList.update (rendition_key pc r) None results) = (rv, s1)"
      by (simp add: Let_def)
    from Cons.IH[OF this] fr show ?thesis by simp
  next
    case (Raise e)
    with Cons.prems cv have "s1 = s'" by (simp add: Let_def)
    with fr show ?thesis by simp
  qed
qed

lemma platform_loop_frame:
  "platform_loop E s i a od b pcs results = (rv, s1) \<Longrightarrow>
     config s1 = config s \<and> jobs s1 = jobs s \<and> submitted s1 = submitted s \<and>
     master_calls s1 = master_calls s"
proof (induction pcs arbitrary: s results)
  case Nil
  then show ?case by simp
next
  case (Cons pc pcs)
  show ?case
  proof (cases "mkdir_parents (world s) (platform_output_dir od pc)")
    case (Inl e)
    with Cons.prems show ?thesis by simp
  next
    case (Inr w)
    obtain r1 s' where rl: "ratio_loop E (s\<lparr>world := w\<rparr>) i a od b pc (aspect_ratios pc) results = (r1, s')"
      by (cases "ratio_loop E (s\<lparr>world := w\<rparr>) i a od b pc (aspect_ratios pc) results")
    note fr = ratio_loop_frame[OF rl]
    show ?thesis
    proof (cases r1)
      case (Inl e)
      with Cons.prems Inr rl have "s1 = s'" by simp
      with fr show ?thesis by simp
    next
      case (Inr results1)
      with Cons.prems \<open>mkdir_parents (world s) (platform_output_dir od pc) = Inr w\<close> rl
      have "platform_loop E s' i a od b pcs results1 = (rv, s1)" by simp
      from Cons.IH[OF this] fr show ?thesis by simp
    qed
  qed
qed

lemma step2_frame:
  "step2_generate_videos E s job = (job', s1) \<Longrightarrow>
     config s1 = config s \<and> jobs s1 = jobs s \<and> submitted s1 = submitted s \<and>
     master_calls s1 = master_calls s"
  by (auto simp: step2_generate_videos_def create_multi_platform_videos_def Let_def
      split: sum.splits prod.splits if_splits dest: platform_loop_frame)

lemma step1_frame:
  "step1_master_audio E s job = (r, s1) \<Longrightarrow>
     config s1 = config s \<and> jobs s1 = jobs s \<and> submitted s1 = submitted s \<and>
     render_calls s1 = render_calls s"
  by (auto simp: step1_master_audio_def split: if_splits dest: master_audio_file_frame)

lemma process_single_job_frame:
  assumes "process_single_job E s job = (job', s1)"
  shows "config s1 = config s \<and> jobs s1 = jobs s \<and> submitted s1 = submitted s"
proof -
  obtain r s' where st1: "step1_master_audio E s (job\<lparr>status := Processing\<rparr>) = (r, s')"
    by (cases "step1_master_audio E s (job\<lparr>status := Processing\<rparr>)")
  note f1 = step1_frame[OF st1]
  show ?thesis
  proof (cases r)
    case Success
    with assms st1 have "step2_generate_videos E s' (job\<lparr>status := Processing\<rparr>) = (job', s1)"
      by (simp add: process_single_job_def)
    from step2_frame[OF this] f1 show ?thesis by simp
  next
    case Failure
    with assms st1 f1 show ?thesis by (auto simp: process_single_job_def)
  next
    case (Raise e)
    with assms st1 f1 show ?thesis by (auto simp: process_single_job_def)
  qed
qed

section \<open>Evaluation of the examples\<close>

lemma example_orchestrator_eval:
  assumes "output_base_dir cfg = ''./output''" and "temp_dir (video_generation cfg) = None"
  shows "example_orchestrator cfg =
     \<lparr>config = cfg, jobs = [],
      world = \<lparr>dirs = {[''/''], [''/'', ''tmp''], [''/'', ''tmp'', ''beer_goggles''],
                       [''output''], [''output'', ''mastered_audio''], [''output'', ''videos'']},
               files = [[''in'', ''a.wav''] \<mapsto> Binary, [''cover.png''] \<mapsto> Binary],
               ext = 0\<rparr>,
      submitted = [], master_calls = [], render_calls = []\<rparr>"
proof -
  have p1: "Path ''/tmp/beer_goggles'' = [''/'', ''tmp'', ''beer_goggles'']"
    by (simp add: Path_def)
  have p2: "output_dir cfg = [''output'']"
    by (simp add: output_dir_def assms Path_def)
  have p3: "mastered_audio_dir cfg = [''output'', ''mastered_audio'']"
    by (simp add: mastered_audio_dir_def p2 joinpath_def Path_def)
  have p4: "videos_dir cfg = [''output'', ''videos'']"
    by (simp add: videos_dir_def p2 joinpath_def Path_def)
  show ?thesis
    by (simp add: example_orchestrator_def WorkflowOrchestrator_def assms p1 p2 p3 p4
        mkdir_parents_def example_world_def insert_commute)
qed

lemma default_dirs:
  "output_base_dir WorkflowConfig_default = ''./output''"
  "temp_dir (video_generation WorkflowConfig_default) = None"
  by (simp_all add: WorkflowConfig_default_def VideoGenerationConfig_default_def)

lemma supported_eval:
  "list_supported_platforms =
     [''facebook'', ''instagram'', ''youtube'', ''tiktok'', ''twitter'', ''linkedin'']"
  by (simp add: list_supported_platforms_def PLATFORM_CONFIGS_def)

lemma lower_examples:
  "lower ''TikTok'' = ''tiktok''"
  "lower ''tiktok'' = ''tiktok''"
  "lower ''Vimeo'' = ''vimeo''"
  "lower ''youtube'' = ''youtube''"
  "lower ''MySpace'' = ''myspace''"
  by (simp_all add: lower_def lower_char_def)

section \<open>Adding a job: rejected inputs\<close>

text \<open>
  C3. \<open>add_job\<close> raises \<open>FileNotFoundError\<close> when the audio path or the image path
  does not exist; when both exist and some platform identifier, lower-cased, is not in
  the catalogue, it raises the \<open>ValueError\<close> that lists the offending identifiers, as
  given and in their order; and whenever it raises, the orchestrator, its job list
  included, is as it was. The path checks come first: a call with a missing path and
  an unknown platform raises \<open>FileNotFoundError\<close>.
\<close>

theorem add_job_rejects:
  "(\<not> path_exists (world s) (Path audio) \<or> \<not> path_exists (world s) (Path img) \<longrightarrow>
      (\<exists>m. fst (add_job s audio img plats jid) = Inl (FileNotFoundError m))) \<and>
   (path_exists (world s) (Path audio) \<and> path_exists (world s) (Path img) \<and>
    (\<exists>p \<in> set plats. lower p \<notin> set list_supported_platforms) \<longrightarrow>
      fst (add_job s audio img plats jid) =
        Inl (UnsupportedPlatforms
               (filter (\<lambda>p. lower p \<notin> set list_supported_platforms) plats))) \<and>
   (\<forall>e. fst (add_job s audio img plats jid) = Inl e \<longrightarrow>
      snd (add_job s audio img plats jid) = s)"
  by (auto simp: add_job_def Let_def filter_empty_conv)

theorem add_job_rejects_witness:
  "\<not> path_exists (world (example_orchestrator WorkflowConfig_default)) (Path ''in/b.wav'') \<and>
   (\<exists>m. fst (add_job (example_orchestrator WorkflowConfig_default) ''in/b.wav'' ''cover.png''
              [''tiktok''] None) = Inl (FileNotFoundError m)) \<and>
   snd (add_job (example_orchestrator WorkflowConfig_default) ''in/b.wav'' ''cover.png''
          [''tiktok''] None) = example_orchestrator WorkflowConfig_default \<and>
   path_exists (world (example_orchestrator WorkflowConfig_default)) (Path ''in/a.wav'') \<and>
   path_exists (world (example_orchestrator WorkflowConfig_default)) (Path ''cover.png'') \<and>
   fst (add_job (example_orchestrator WorkflowConfig_default) ''in/a.wav'' ''cover.png''
          [''TikTok'', ''Vimeo'', ''youtube'', ''MySpace''] None) =
     Inl (UnsupportedPlatforms [''Vimeo'', ''MySpace'']) \<and>
   snd (add_job (example_orchestrator WorkflowConfig_default) ''in/a.wav'' ''cover.png''
          [''TikTok'', ''Vimeo'', ''youtube'', ''MySpace''] None) =
     example_orchestrator WorkflowConfig_default"
proof -
  let ?s = "example_orchestrator WorkflowConfig_default"
  have w: "world ?s = \<lparr>dirs = {[''/''], [''/'', ''tmp''], [''/'', ''tmp'', ''beer_goggles''],
               [''output''], [''output'', ''mastered_audio''], [''output'', ''videos'']},
             files = [[''in'', ''a.wav''] \<mapsto> Binary, [''cover.png''] \<mapsto> Binary], ext = 0\<rparr>"
    by (simp add: example_orchestrator_eval default_dirs)
  have no_b: "\<not> path_exists (world ?s) (Path ''in/b.wav'')"
    unfolding w by (simp add: path_exists_def Path_def)
  have has_a: "path_exists (world ?s) (Path ''in/a.wav'')"
    unfolding w by (simp add: path_exists_def Path_def)
  have has_c: "path_exists (world ?s) (Path ''cover.png'')"
    unfolding w by (simp add: path_exists_def Path_def)
  have bad: "\<exists>p \<in> set [''TikTok'', ''Vimeo'', ''youtube'', ''MySpace''].
               lower p \<notin> set list_supported_platforms"
    by (simp add: supported_eval lower_examples)
  have flt: "filter (\<lambda>p. lower p \<notin> set list_supported_platforms)
               [''TikTok'', ''Vimeo'', ''youtube'', ''MySpace''] = [''Vimeo'', ''MySpace'']"
    by (simp add: supported_eval lower_examples)
  note t1 = add_job_rejects [of ?s "''in/b.wav''" "''cover.png''" "[''tiktok'']" None]
  note t2 = add_job_rejects [of ?s "''in/a.wav''" "''cover.png''"
                               "[''TikTok'', ''Vimeo'', ''youtube'', ''MySpace'']" None]
  have a1: "\<exists>m. fst (add_job ?s ''in/b.wav'' ''cover.png'' [''tiktok''] None) =
                  Inl (FileNotFoundError m)"
    by (rule mp [OF conjunct1 [OF t1]]) (simp only: no_b simp_thms)
  then obtain m where "fst (add_job ?s ''in/b.wav'' ''cover.png'' [''tiktok''] None) =
                         Inl (FileNotFoundError m)" ..
  then have a2: "snd (add_job ?s ''in/b.wav'' ''cover.png'' [''tiktok''] None) = ?s"
    by (rule mp [OF spec [OF conjunct2 [OF conjunct2 [OF t1]]]])
  have "fst (add_job ?s ''in/a.wav'' ''cover.png''
               [''TikTok'', ''Vimeo'', ''youtube'', ''MySpace''] None) =
          Inl (UnsupportedPlatforms
                 (filter (\<lambda>p. lower p \<notin> set list_supported_platforms)
                    [''TikTok'', ''Vimeo'', ''youtube'', ''MySpace'']))"
    by (rule mp [OF conjunct1 [OF conjunct2 [OF t2]]]) (intro conjI has_a has_c bad)
  then have b1: "fst (add_job ?s ''in/a.wav'' ''cover.png''
                        [''TikTok'', ''Vimeo'', ''youtube'', ''MySpace''] None) =
                   Inl (UnsupportedPlatforms [''Vimeo'', ''MySpace''])"
    by (simp only: flt)
  then have b2: "snd (add_job ?s ''in/a.wav'' ''cover.png''
                        [''TikTok'', ''Vimeo'', ''youtube'', ''MySpace''] None) = ?s"
    by (rule mp [OF spec [OF conjunct2 [OF conjunct2 [OF t2]]]])
  show ?thesis
    by (intro conjI no_b a1 a2 has_a has_c b1 b2)
qed

section \<open>The pipeline of one job\<close>

lemma mastered_audio_path_status [simp]:
  "mastered_audio_path cfg (job\<lparr>status := st\<rparr>) = mastered_audio_path cfg job"
  by (simp add: mastered_audio_path_def)

lemma step1_status [simp]:
  "step1_master_audio E s (job\<lparr>status := st\<rparr>) = step1_master_audio E s job"
  by (simp add: step1_master_audio_def)





lemma process_single_job_status [simp]:
  "process_single_job E s (job\<lparr>status := st\<rparr>) = process_single_job E s job"
  by (simp add: process_single_job_def)

section \<open>Resume mode\<close>

text \<open>
  C10. The default of \<open>resume_on_failure\<close> is \<open>True\<close>, and an orchestrator created
  without a configuration has the default configuration. With \<open>resume_on_failure\<close> at
  its default, a job whose mastered audio exists when the worker runs it goes through
  step 1 without a call of \<open>master_audio_file\<close>: the step leaves the orchestrator and
  the world as they are, and the whole pipeline of the job adds nothing to the log of
  mastering calls.
\<close>

theorem resume_default_skips_mastering:
  "resume_on_failure WorkflowConfig_default \<and>
   (create_workflow_orchestrator None w = Inr s \<longrightarrow> config s = WorkflowConfig_default) \<and>
   (resume_on_failure (config s) = resume_on_failure WorkflowConfig_default \<and>
    path_exists (world s) (mastered_audio_path (config s) job) \<longrightarrow>
      step1_master_audio E s job = (Success, s) \<and>
      master_calls (snd (process_single_job E s job)) = master_calls s)"
proof (intro conjI impI)
  show d: "resume_on_failure WorkflowConfig_default"
    by (simp add: WorkflowConfig_default_def)
  show "config s = WorkflowConfig_default" if "create_workflow_orchestrator None w = Inr s"
    using that
    by (auto simp: create_workflow_orchestrator_def WorkflowOrchestrator_def
        split: sum.splits)
  assume h: "resume_on_failure (config s) = resume_on_failure WorkflowConfig_default \<and>
             path_exists (world s) (mastered_audio_path (config s) job)"
  with d show st1: "step1_master_audio E s job = (Success, s)"
    by (simp add: step1_master_audio_def)
  obtain job' s1 where st2: "step2_generate_videos E s (job\<lparr>status := Processing\<rparr>) = (job', s1)"
    by (cases "step2_generate_videos E s (job\<lparr>status := Processing\<rparr>)")
  from st1 st2 have "snd (process_single_job E s job) = s1"
    by (simp add: process_single_job_def)
  with step2_frame [OF st2] show "master_calls (snd (process_single_job E s job)) = master_calls s"
    by simp
qed

section \<open>A failed mastering stage\<close>

text \<open>
  C2, as amended. When the mastering stage of a job fails, which it can only do when it
  is run and not skipped by resume, the worker leaves the job failed with the message
  \<open>Audio mastering failed\<close>, leaves the outputs of the job as they were (empty for a
  job that never reached the render stage), and does not invoke the render stage.
\<close>

theorem mastering_failure_stops_job:
  assumes "fst (step1_master_audio E s job) = Failure"
  shows "status (fst (process_single_job E s job)) = Failed \<and>
         error_message (fst (process_single_job E s job)) = Some ''Audio mastering failed'' \<and>
         output_files (fst (process_single_job E s job)) = output_files job \<and>
         (output_files job = [] \<longrightarrow> output_files (fst (process_single_job E s job)) = []) \<and>
         render_calls (snd (process_single_job E s job)) = render_calls s \<and>
         master_calls (snd (process_single_job E s job)) =
           master_calls s @ [\<lparr>mc_input = audio_file job,
                               mc_output = mastered_audio_path (config s) job,
                               mc_result = Failure\<rparr>]"
proof -
  obtain s' where st1: "step1_master_audio E s job = (Failure, s')"
    using assms by (cases "step1_master_audio E s job") simp
  then have ran: "master_audio_file E s (audio_file job) (mastered_audio_path (config s) job) =
                    (Failure, s')"
    by (simp add: step1_master_audio_def split: if_splits)
  from st1 have r: "process_single_job E s job =
                      (job_failed (job\<lparr>status := Processing\<rparr>) ''Audio mastering failed'', s')"
    by (simp add: process_single_job_def)
  from master_audio_file_frame [OF ran] r show ?thesis
    by (simp add: job_failed_def)
qed

section \<open>The histogram\<close>



section \<open>The run of the submitted jobs\<close>

lemma run_jobs_frame:
  "run_jobs E s js = (js', s1) \<Longrightarrow>
     config s1 = config s \<and> jobs s1 = jobs s \<and> submitted s1 = submitted s"
proof (induction js arbitrary: s js' s1)
  case Nil
  then show ?case by simp
next
  case (Cons job js)
  show ?case
  proof (cases "status job = Pending")
    case True
    obtain j1 sa where p: "process_single_job E s job = (j1, sa)"
      by (cases "process_single_job E s job")
    obtain jr sb where r: "run_jobs E sa js = (jr, sb)"
      by (cases "run_jobs E sa js")
    from Cons.prems True p r have "s1 = sb" by simp
    with Cons.IH [OF r] process_single_job_frame [OF p] show ?thesis by simp
  next
    case False
    obtain jr sb where r: "run_jobs E s js = (jr, sb)"
      by (cases "run_jobs E s js")
    from Cons.prems False r have "s1 = sb" by simp
    with Cons.IH [OF r] show ?thesis by simp
  qed
qed

lemma run_jobs_length: "length (fst (run_jobs E s js)) = length js"
  by (induction js arbitrary: s) (simp_all add: split_beta)

lemma run_jobs_no_pending:
  "\<forall>j \<in> set js. status j \<noteq> Pending \<Longrightarrow> run_jobs E s js = (js, s)"
  by (induction js arbitrary: s) auto

text \<open>
  Each pending job is replaced by what the pipeline makes of it, and every other job
  is left as it is.
\<close>

lemma run_jobs_nth:
  "i < length js \<Longrightarrow>
     (status (js ! i) = Pending \<longrightarrow>
        (\<exists>sa. fst (run_jobs E s js) ! i = fst (process_single_job E sa (js ! i)))) \<and>
     (status (js ! i) \<noteq> Pending \<longrightarrow> fst (run_jobs E s js) ! i = js ! i)"
proof (induction js arbitrary: s i)
  case Nil
  then show ?case by simp
next
  case (Cons job js)
  show ?case
  proof (cases i)
    case 0
    then show ?thesis by (auto simp: split_beta intro: exI [of _ s])
  next
    case (Suc k)
    with Cons.prems have k: "k < length js" by simp
    show ?thesis
    proof (cases "status job = Pending")
      case True
      obtain j1 sa where p: "process_single_job E s job = (j1, sa)"
        by (cases "process_single_job E s job")
      from Cons.IH [OF k, of sa] True p Suc show ?thesis
        by (simp add: split_beta)
    next
      case False
      from Cons.IH [OF k, of s] False Suc show ?thesis
        by (simp add: split_beta)
    qed
  qed
qed

lemma run_jobs_member:
  assumes "j' \<in> set (fst (run_jobs E s js))"
  shows "(\<exists>j \<in> set js. \<exists>sa. status j = Pending \<and> j' = fst (process_single_job E sa j)) \<or>
         (j' \<in> set js \<and> status j' \<noteq> Pending)"
proof -
  from assms obtain i where i: "i < length js" and j': "j' = fst (run_jobs E s js) ! i"
    by (auto simp: in_set_conv_nth run_jobs_length)
  from run_jobs_nth [OF i, of E s] j' i show ?thesis
    by (cases "status (js ! i) = Pending") (auto intro: nth_mem)
qed

section \<open>Processing the queue\<close>

lemma process_all_jobs_nothing_pending:
  assumes "\<forall>j \<in> set (jobs s). status j \<noteq> Pending"
  shows "process_all_jobs E s =
           (Inr (if jobs s = [] then (\<lambda>_. 0) else status_counts (jobs s)), s)"
  using assms by (auto simp: process_all_jobs_def Let_def filter_empty_conv)

lemma status_counts_Nil: "status_counts [] = (\<lambda>_. 0)"
  by (simp add: status_counts_def)

text \<open>What a call of \<open>process_all_jobs\<close> that returns a histogram has done.\<close>

lemma process_all_jobs_result:
  assumes "process_all_jobs E s = (Inr h, s1)"
  shows "h = status_counts (jobs s1) \<and> length (jobs s1) = length (jobs s) \<and>
         config s1 = config s \<and>
         submitted s1 = submitted s @ filter (\<lambda>job. status job = Pending) (jobs s) \<and>
         (\<forall>i < length (jobs s).
            (status (jobs s ! i) = Pending \<longrightarrow>
               (\<exists>sa. jobs s1 ! i = fst (process_single_job E sa (jobs s ! i)))) \<and>
            (status (jobs s ! i) \<noteq> Pending \<longrightarrow> jobs s1 ! i = jobs s ! i))"
proof (cases "filter (\<lambda>job. status job = Pending) (jobs s) = []")
  case True
  then have np: "\<forall>j \<in> set (jobs s). status j \<noteq> Pending"
    by (simp add: filter_empty_conv)
  from process_all_jobs_nothing_pending [OF np, of E] assms
  have "s1 = s" and "h = (if jobs s = [] then (\<lambda>_. 0) else status_counts (jobs s))"
    by simp_all
  with True np show ?thesis by (auto simp: status_counts_Nil)
next
  case False
  then have ne: "jobs s \<noteq> []" by auto
  obtain js' sr where r: "run_jobs E (s\<lparr>submitted := submitted s @
                            filter (\<lambda>job. status job = Pending) (jobs s)\<rparr>) (jobs s) = (js', sr)"
    by (cases "run_jobs E (s\<lparr>submitted := submitted s @
                 filter (\<lambda>job. status job = Pending) (jobs s)\<rparr>) (jobs s)")
  from assms False ne r have pos: "\<not> max_concurrent_jobs (config s) \<le> 0"
    by (auto simp: process_all_jobs_def Let_def split: if_splits)
  with assms False ne r have h: "h = status_counts js'" and s1: "s1 = sr\<lparr>jobs := js'\<rparr>"
    by (auto simp: process_all_jobs_def Let_def)
  from run_jobs_length [of E "s\<lparr>submitted := submitted s @
          filter (\<lambda>job. status job = Pending) (jobs s)\<rparr>" "jobs s"] r
  have len: "length js' = length (jobs s)" by simp
  have nth: "(status (jobs s ! i) = Pending \<longrightarrow>
               (\<exists>sa. js' ! i = fst (process_single_job E sa (jobs s ! i)))) \<and>
             (status (jobs s ! i) \<noteq> Pending \<longrightarrow> js' ! i = jobs s ! i)"
    if "i < length (jobs s)" for i
    using run_jobs_nth [OF that, of E "s\<lparr>submitted := submitted s @
          filter (\<lambda>job. status job = Pending) (jobs s)\<rparr>"] r by simp
  from run_jobs_frame [OF r] h s1 len nth show ?thesis by simp
qed

text \<open>A call of \<open>process_all_jobs\<close> that raises has changed nothing.\<close>

lemma process_all_jobs_error: "process_all_jobs E s = (Inl e, s1) \<Longrightarrow> s1 = s"
  by (auto simp: process_all_jobs_def Let_def split: if_splits prod.splits)

section \<open>Idempotence after a successful run\<close>

text \<open>
  C5. When a call of \<open>process_all_jobs\<close> has returned a histogram and left every job
  completed, the next call, with no job added in between, returns the same histogram
  and leaves the orchestrator as it is: the log of submitted jobs, the logs of
  mastering and rendering calls and the world are those the first call left.
\<close>

theorem process_all_jobs_idempotent:
  assumes "process_all_jobs E s = (Inr h, s1)"
    and "\<forall>j \<in> set (jobs s1). status j = Completed"
  shows "process_all_jobs E s1 = (Inr h, s1) \<and>
         submitted (snd (process_all_jobs E s1)) = submitted s1 \<and>
         master_calls (snd (process_all_jobs E s1)) = master_calls s1 \<and>
         render_calls (snd (process_all_jobs E s1)) = render_calls s1"
proof -
  from assms(2) have np: "\<forall>j \<in> set (jobs s1). status j \<noteq> Pending" by auto
  from process_all_jobs_result [OF assms(1)] have h: "h = status_counts (jobs s1)" by simp
  have "process_all_jobs E s1 = (Inr h, s1)"
    unfolding process_all_jobs_nothing_pending [OF np] h
    by (simp add: status_counts_Nil)
  then show ?thesis by simp
qed

section \<open>Retrying the failed jobs\<close>


section \<open>The error message and the status\<close>



lemma message_iff_failed_reset: "message_iff_failed j \<Longrightarrow> message_iff_failed (reset_failed j)"
  by (auto simp: message_iff_failed_def reset_failed_def)


lemma process_all_jobs_jobs:
  "jobs (snd (process_all_jobs E s)) = jobs s \<or>
   jobs (snd (process_all_jobs E s)) = fst (run_jobs E (s\<lparr>submitted := submitted s @
       filter (\<lambda>job. status job = Pending) (jobs s)\<rparr>) (jobs s))"
  by (auto simp: process_all_jobs_def Let_def split: prod.splits)


lemma add_job_jobs:
  "jobs (snd (add_job s audio img plats jid)) = jobs s \<or>
   (\<exists>j. jobs (snd (add_job s audio img plats jid)) = jobs s @ [j] \<and> status j = Pending \<and>
        error_message j = None \<and> output_files j = [] \<and> audio_file j = Path audio \<and>
        platforms j = map lower plats \<and>
        job_id j = (case jid of None \<Rightarrow> stem (Path audio) @ ''_'' @ str_nat (length (jobs s))
                    | Some i \<Rightarrow> i))"
  by (auto simp: add_job_def Let_def)


section \<open>The worker pool: invariant\<close>






section \<open>Evaluation of the example job\<close>

lemma example_paths:
  "Path ''in/a.wav'' = [''in'', ''a.wav'']"
  "Path ''cover.png'' = [''cover.png'']"
  "stem [''in'', ''a.wav''] = ''a''"
  by (simp_all add: Path_def stem_def name_of_def)

lemma example_queued_eval:
  assumes "output_base_dir cfg = ''./output''" and "temp_dir (video_generation cfg) = None"
  shows "example_queued cfg = (example_orchestrator cfg)\<lparr>jobs := [example_job]\<rparr>"
proof -
  have ex: "path_exists (world (example_orchestrator cfg)) [''in'', ''a.wav'']"
    "path_exists (world (example_orchestrator cfg)) [''cover.png'']"
    by (simp_all add: example_orchestrator_eval [OF assms] path_exists_def)
  have j: "jobs (example_orchestrator cfg) = []"
    by (simp add: example_orchestrator_eval [OF assms])
  show ?thesis
    by (simp add: example_queued_def add_job_def example_paths ex j supported_eval
        lower_examples str_nat.simps example_job_def Let_def)
qed

lemma tiktok_names:
  "get_platform_config ''tiktok'' = Inr tiktok"
  "platform_name tiktok = ''tiktok''"
  "rendition_key tiktok PORTRAIT = ''TikTok_9:16''"
  "aspect_ratios tiktok = [PORTRAIT]"
  by (simp_all add: get_platform_config_def PLATFORM_CONFIGS_def lower_examples
      platform_name_def rendition_key_def tiktok_def lower_def lower_char_def replace_char_def)

lemma example_platform_dir:
  "platform_output_dir [''output'', ''videos'', ''a_0''] tiktok =
     [''output'', ''videos'', ''a_0'', ''tiktok'']"
  by (simp add: platform_output_dir_def tiktok_names joinpath_def Path_def)

lemma example_job_paths:
  assumes "output_base_dir cfg = ''./output''" and "output_format (video_generation cfg) = ''mp4''"
  shows "mastered_audio_path cfg example_job = [''output'', ''mastered_audio'', ''a_mastered.wav'']"
    and "job_videos_dir cfg example_job = [''output'', ''videos'', ''a_0'']"
    and "video_output_path (video_generation cfg) [''output'', ''videos'', ''a_0''] ''a_0'' tiktok
           PORTRAIT = [''output'', ''videos'', ''a_0'', ''tiktok'', ''a_0_tiktok_9x16.mp4'']"
  by (simp_all add: mastered_audio_path_def mastered_audio_dir_def output_dir_def assms
      Path_def joinpath_def example_job_def example_paths job_videos_dir_def videos_dir_def
      example_platform_dir tiktok_names video_output_path_def replace_char_def)

lemma default_eval:
  "output_base_dir WorkflowConfig_default = ''./output''"
  "temp_dir (video_generation WorkflowConfig_default) = None"
  "output_format (video_generation WorkflowConfig_default) = ''mp4''"
  "resume_on_failure WorkflowConfig_default = True"
  "max_concurrent_jobs WorkflowConfig_default = 4"
  by (simp_all add: WorkflowConfig_default_def VideoGenerationConfig_default_def)

lemma job_videos_dir_status [simp]:
  "job_videos_dir cfg (job\<lparr>status := st\<rparr>) = job_videos_dir cfg job"
  by (simp add: job_videos_dir_def)

lemma example_job_fields:
  "job_id example_job = ''a_0''"
  "audio_file example_job = [''in'', ''a.wav'']"
  "image_file example_job = [''cover.png'']"
  "platforms example_job = [''tiktok'']"
  "status example_job = Pending"
  "output_files example_job = []"
  "error_message example_job = None"
  by (simp_all add: example_job_def)

lemma example_orchestrator_Inr:
  assumes "output_base_dir cfg = ''./output''" and "temp_dir (video_generation cfg) = None"
  shows "WorkflowOrchestrator cfg example_world = Inr (example_orchestrator cfg)"
proof -
  have p1: "Path ''/tmp/beer_goggles'' = [''/'', ''tmp'', ''beer_goggles'']"
    by (simp add: Path_def)
  have p2: "output_dir cfg = [''output'']"
    by (simp add: output_dir_def assms Path_def)
  have p3: "mastered_audio_dir cfg = [''output'', ''mastered_audio'']"
    by (simp add: mastered_audio_dir_def p2 joinpath_def Path_def)
  have p4: "videos_dir cfg = [''output'', ''videos'']"
    by (simp add: videos_dir_def p2 joinpath_def Path_def)
  show ?thesis
    by (simp add: example_orchestrator_def WorkflowOrchestrator_def assms p1 p2 p3 p4
        mkdir_parents_def example_world_def)
qed

lemma example_orchestrator_config [simp]: "config (example_orchestrator cfg) = cfg"
  by (simp add: example_orchestrator_def WorkflowOrchestrator_def split: sum.splits)

lemma example_queued_reachable:
  assumes "output_base_dir cfg = ''./output''" and "temp_dir (video_generation cfg) = None"
  shows "reachable E (example_queued cfg)"
  unfolding example_queued_def
  by (rule r_add [OF r_init [OF example_orchestrator_Inr [OF assms]]])

lemma process_all_jobs_Inr:
  assumes "0 < max_concurrent_jobs (config s)"
  shows "process_all_jobs E s =
           (Inr (if jobs s = [] then (\<lambda>_. 0)
                 else status_counts (jobs (snd (process_all_jobs E s)))),
            snd (process_all_jobs E s))"
  using assms by (simp add: process_all_jobs_def Let_def split_beta)

section \<open>Status and error message\<close>


section \<open>The bound on the jobs in processing\<close>






section \<open>Evaluation of the example runs\<close>

lemmas pipeline_eval =
  process_all_jobs_def process_single_job_def step1_master_audio_def
  step2_generate_videos_def path_exists_def master_audio_file_def 
  create_multi_platform_videos_def mkdir_parents_def create_video_def str_path_def
  Let_def job_failed_def

lemma no_resume_eval:
  "output_base_dir config_no_resume = ''./output''"
  "temp_dir (video_generation config_no_resume) = None"
  "output_format (video_generation config_no_resume) = ''mp4''"
  "resume_on_failure config_no_resume = False"
  "max_concurrent_jobs config_no_resume = 4"
  by (simp_all add: config_no_resume_def default_eval)

lemma example_done_eval:
  "jobs example_done =
     [example_job\<lparr>status := Completed,
        output_files :=
          [(''TikTok_9:16'', Some ''output/videos/a_0/tiktok/a_0_tiktok_9x16.mp4'')]\<rparr>]"
  "config example_done = WorkflowConfig_default"
  "path_exists (world example_done) [''output'', ''mastered_audio'', ''a_mastered.wav'']"
  "master_calls example_done =
     [\<lparr>mc_input = [''in'', ''a.wav''],
       mc_output = [''output'', ''mastered_audio'', ''a_mastered.wav''],
       mc_result = Success\<rparr>]"
  "submitted example_done = [example_job]"
  by (simp_all add: example_done_def pipeline_eval tools_ok_def
      example_queued_eval default_eval example_orchestrator_eval example_job_paths
      example_platform_dir tiktok_names example_job_fields)

lemma retry_first_eval:
  "jobs retry_first =
     [example_job\<lparr>status := Failed,
        output_files := [(''TikTok_9:16'', None)],
        error_message := Some (''Failed to create videos: '' @ repr_list [''TikTok_9:16''])\<rparr>]"
  "config retry_first = config_no_resume"
  "files (world retry_first) [''in'', ''a.wav''] = Some Binary"
  "ext (world retry_first) = 1"
  "map mc_result (master_calls retry_first) = [Success]"
  "map rc_result (render_calls retry_first) = [Failure]"
  "submitted retry_first = [example_job]"
  by (simp_all add: retry_first_def pipeline_eval tools_flaky_def
      example_queued_eval no_resume_eval example_orchestrator_eval example_job_paths
      example_platform_dir tiktok_names example_job_fields)

lemma retry_second_eval:
  "jobs retry_second =
     [example_job\<lparr>status := Failed,
        output_files := [(''TikTok_9:16'', None)],
        error_message := Some ''Audio mastering failed''\<rparr>]"
  "map mc_result (master_calls retry_second) = [Success, Failure]"
  "map rc_result (render_calls retry_second) = [Failure]"
  "submitted retry_second = [example_job, example_job\<lparr>output_files := [(''TikTok_9:16'', None)]\<rparr>]"
  by (simp_all add: retry_second_def retry_failed_jobs_def reset_failed_def pipeline_eval
      tools_flaky_def retry_first_eval no_resume_eval example_job_paths example_job_fields)

section \<open>A failed mastering stage: examples\<close>

text \<open>
  C2 as stated fails after a retry. With resume mode off, a job whose rendering failed
  has its failed rendition in its outputs; \<open>retry_failed_jobs\<close> resets its status and
  its message but not its outputs; when the mastering stage then fails, the job is
  failed with the message \<open>Audio mastering failed\<close> and its outputs are not empty.
\<close>

theorem mastering_failure_outputs_counterexample:
  "map status (jobs retry_second) = [Failed] \<and>
   map error_message (jobs retry_second) = [Some ''Audio mastering failed''] \<and>
   map output_files (jobs retry_second) = [[(''TikTok_9:16'', None)]] \<and>
   map mc_result (master_calls retry_second) = [Success, Failure] \<and>
   map rc_result (render_calls retry_second) = [Failure]"
  by (simp add: retry_second_eval)

theorem mastering_failure_stops_job_witness:
  "fst (step1_master_audio tools_flaky retry_first example_job) = Failure \<and>
   status (fst (process_single_job tools_flaky retry_first example_job)) = Failed \<and>
   error_message (fst (process_single_job tools_flaky retry_first example_job)) =
     Some ''Audio mastering failed'' \<and>
   output_files (fst (process_single_job tools_flaky retry_first example_job)) = [] \<and>
   render_calls (snd (process_single_job tools_flaky retry_first example_job)) =
     render_calls retry_first"
proof -
  have h: "fst (step1_master_audio tools_flaky retry_first example_job) = Failure"
    by (simp add: step1_master_audio_def master_audio_file_def path_exists_def tools_flaky_def
        retry_first_eval no_resume_eval example_job_fields Let_def)
  from mastering_failure_stops_job [OF h] h show ?thesis
    by (simp add: example_job_fields)
qed

section \<open>Resume mode: example\<close>

theorem resume_default_skips_mastering_witness:
  "create_workflow_orchestrator None example_world =
     Inr (example_orchestrator WorkflowConfig_default) \<and>
   config (example_orchestrator WorkflowConfig_default) = WorkflowConfig_default \<and>
   resume_on_failure (config example_done) = resume_on_failure WorkflowConfig_default \<and>
   path_exists (world example_done) (mastered_audio_path (config example_done) example_job) \<and>
   step1_master_audio tools_ok example_done example_job = (Success, example_done) \<and>
   master_calls (snd (process_single_job tools_ok example_done example_job)) =
     master_calls example_done"
proof -
  have c: "create_workflow_orchestrator None example_world =
             Inr (example_orchestrator WorkflowConfig_default)"
    by (simp add: create_workflow_orchestrator_def example_orchestrator_Inr default_eval)
  have r: "resume_on_failure (config example_done) = resume_on_failure WorkflowConfig_default"
    by (simp add: example_done_eval)
  have p: "path_exists (world example_done)
             (mastered_audio_path (config example_done) example_job)"
    by (simp add: example_done_eval example_job_paths default_eval)
  note t1 = resume_default_skips_mastering
    [of example_world "example_orchestrator WorkflowConfig_default"]
  note t2 = resume_default_skips_mastering [of _ example_done example_job tools_ok]
  from t1 c have a: "config (example_orchestrator WorkflowConfig_default) =
                       WorkflowConfig_default"
    by blast
  from t2 r p have b: "step1_master_audio tools_ok example_done example_job =
                         (Success, example_done) \<and>
                       master_calls (snd (process_single_job tools_ok example_done example_job)) =
                         master_calls example_done"
    by blast
  from c a r p b show ?thesis by blast
qed

section \<open>Idempotence and retry: examples\<close>

theorem process_all_jobs_idempotent_witness:
  "process_all_jobs tools_ok (example_queued WorkflowConfig_default) =
     (Inr (status_counts (jobs example_done)), example_done) \<and>
   map status (jobs example_done) = [Completed] \<and>
   process_all_jobs tools_ok example_done =
     (Inr (status_counts (jobs example_done)), example_done) \<and>
   master_calls (snd (process_all_jobs tools_ok example_done)) = master_calls example_done"
proof -
  have pos: "0 < max_concurrent_jobs (config (example_queued WorkflowConfig_default))"
    by (simp add: example_queued_eval default_eval)
  have ne: "jobs (example_queued WorkflowConfig_default) \<noteq> []"
    by (simp add: example_queued_eval default_eval)
  from process_all_jobs_Inr [OF pos, of tools_ok] ne
  have h1: "process_all_jobs tools_ok (example_queued WorkflowConfig_default) =
              (Inr (status_counts (jobs example_done)), example_done)"
    by (simp add: example_done_def)
  have h2: "\<forall>j \<in> set (jobs example_done). status j = Completed"
    by (simp add: example_done_eval)
  have h3: "map status (jobs example_done) = [Completed]"
    by (simp add: example_done_eval)
  from process_all_jobs_idempotent [OF h1 h2] h1 h3 show ?thesis by (intro conjI) simp_all
qed


section \<open>The report\<close>







section \<open>Paths of plain names\<close>

lemma split_slash_ne: "split_slash s \<noteq> []"
  by (induction s) (auto split: list.splits)

lemma split_slash_plain: "CHR ''/'' \<notin> set s \<Longrightarrow> split_slash s = [s]"
  by (induction s) auto

lemma split_slash_parts: "p \<in> set (split_slash s) \<Longrightarrow> CHR ''/'' \<notin> set p"
proof (induction s arbitrary: p)
  case Nil
  then show ?case by simp
next
  case (Cons c cs)
  show ?case
  proof (cases "c = CHR ''/''")
    case True
    with Cons show ?thesis by auto
  next
    case False
    obtain q qs where q: "split_slash cs = q # qs"
      using split_slash_ne [of cs] by (cases "split_slash cs") auto
    with Cons.prems False have "p = c # q \<or> p \<in> set qs" by auto
    with Cons.IH q False show ?thesis by auto
  qed
qed

text \<open>A name without a slash, not empty and not a dot, is a path of one part.\<close>

lemma Path_plain:
  "CHR ''/'' \<notin> set s \<Longrightarrow> s \<noteq> [] \<Longrightarrow> s \<noteq> ''.'' \<Longrightarrow> Path s = [s]"
  by (cases s) (auto simp: Path_def split_slash_plain)

lemma joinpath_plain:
  "CHR ''/'' \<notin> set s \<Longrightarrow> s \<noteq> [] \<Longrightarrow> s \<noteq> ''.'' \<Longrightarrow> joinpath d s = d @ [s]"
  by (cases s) (auto simp: joinpath_def Path_plain)

text \<open>The parts of a parsed path hold no slash, the root apart.\<close>

lemma Path_cases:
  "Path s = ''/'' # filter (\<lambda>p. p \<noteq> [] \<and> p \<noteq> ''.'') (split_slash s) \<or>
   Path s = filter (\<lambda>p. p \<noteq> [] \<and> p \<noteq> ''.'') (split_slash s)"
  by (simp add: Path_def)

lemma Path_parts:
  assumes "p \<in> set (Path s)"
  shows "p = ''/'' \<or> CHR ''/'' \<notin> set p"
proof -
  from Path_cases [of s] assms
  have "p = ''/'' \<or> p \<in> set (split_slash s)"
    by (elim disjE) force+
  then show ?thesis
    using split_slash_parts [of p s] by blast
qed

lemma Path_tail_no_root:
  assumes "Path s = r # ps" and "p \<in> set ps"
  shows "CHR ''/'' \<notin> set p"
proof -
  from Path_cases [of s] assms
  have "p \<in> set (split_slash s)"
  proof (elim disjE)
    assume "Path s = ''/'' # filter (\<lambda>p. p \<noteq> [] \<and> p \<noteq> ''.'') (split_slash s)"
    with assms have "ps = filter (\<lambda>p. p \<noteq> [] \<and> p \<noteq> ''.'') (split_slash s)" by simp
    with assms(2) show ?thesis by simp
  next
    assume "Path s = filter (\<lambda>p. p \<noteq> [] \<and> p \<noteq> ''.'') (split_slash s)"
    with assms have "r # ps = filter (\<lambda>p. p \<noteq> [] \<and> p \<noteq> ''.'') (split_slash s)" by simp
    then have "set ps \<subseteq> set (filter (\<lambda>p. p \<noteq> [] \<and> p \<noteq> ''.'') (split_slash s))"
      by (metis set_subset_Cons)
    with assms(2) show ?thesis by auto
  qed
  then show ?thesis by (rule split_slash_parts)
qed

lemma name_of_Path_no_slash: "CHR ''/'' \<notin> set (name_of (Path s))"
proof (cases "Path s = [] \<or> Path s = [''/'']")
  case True
  then show ?thesis by (auto simp: name_of_def)
next
  case False
  then have n: "name_of (Path s) = last (Path s)" and ne: "Path s \<noteq> []"
    by (auto simp: name_of_def)
  from ne have l: "last (Path s) \<in> set (Path s)" by simp
  show ?thesis
  proof (cases "last (Path s) = ''/''")
    case True
    obtain r ps where rp: "Path s = r # ps" using ne by (cases "Path s") auto
    with False True have "ps \<noteq> []" by (cases ps) auto
    with rp have "last (Path s) \<in> set ps" by simp
    from Path_tail_no_root [OF rp this] True show ?thesis by simp
  next
    case False
    with Path_parts [OF l] n show ?thesis by simp
  qed
qed

lemma stem_Path_no_slash: "CHR ''/'' \<notin> set (stem (Path s))"
  using name_of_Path_no_slash [of s]
  by (auto simp: stem_def Let_def split: option.splits dest: in_set_takeD)

lemma mastered_audio_path_parts:
  "audio_file job = Path a \<Longrightarrow>
     mastered_audio_path cfg job =
       mastered_audio_dir cfg @ [stem (audio_file job) @ ''_mastered.wav'']"
  unfolding mastered_audio_path_def
  by (rule joinpath_plain) (use stem_Path_no_slash [of a] in auto)

lemma str_nat_digits: "set (str_nat n) \<subseteq> set ''0123456789''"
proof (induction n rule: str_nat.induct)
  case (1 n)
  have d: "''0123456789'' ! k \<in> set ''0123456789''" if "k < 10" for k
    using that by (intro nth_mem) simp
  show ?case
  proof (cases "n < 10")
    case True
    with d [of n] show ?thesis by (subst str_nat.simps) simp
  next
    case False
    have "n mod 10 < 10" by simp
    from d [OF this] 1 False show ?thesis by (subst str_nat.simps) simp
  qed
qed

lemma str_nat_no_slash: "CHR ''/'' \<notin> set (str_nat n)"
  using str_nat_digits [of n] by auto

text \<open>The identifier that \<open>add_job\<close> generates is a path of one part.\<close>

lemma generated_id_plain:
  "Path (stem (Path a) @ ''_'' @ str_nat n) = [stem (Path a) @ ''_'' @ str_nat n]"
proof (rule Path_plain)
  show "CHR ''/'' \<notin> set (stem (Path a) @ ''_'' @ str_nat n)"
    using stem_Path_no_slash [of a] str_nat_no_slash [of n] by simp
  have u: "CHR ''_'' \<in> set (stem (Path a) @ ''_'' @ str_nat n)" by simp
  then show "stem (Path a) @ ''_'' @ str_nat n \<noteq> []" by force
  show "stem (Path a) @ ''_'' @ str_nat n \<noteq> ''.''"
  proof
    assume e: "stem (Path a) @ ''_'' @ str_nat n = ''.''"
    from u have "CHR ''_'' \<in> set ''.''" unfolding e .
    then show False by simp
  qed
qed

section \<open>The output paths of two jobs\<close>

text \<open>Every job of a reachable orchestrator has been given its audio path by \<open>add_job\<close>.\<close>

lemma process_single_job_identity:
  "job_id (fst (process_single_job E s j)) = job_id j \<and>
   audio_file (fst (process_single_job E s j)) = audio_file j"
  by (simp add: process_single_job_def step2_generate_videos_def job_failed_def Let_def
      split: prod.splits outcome.splits sum.splits)

lemma run_jobs_audio:
  assumes "\<forall>j \<in> set js. \<exists>a. audio_file j = Path a"
  shows "\<forall>j \<in> set (fst (run_jobs E s js)). \<exists>a. audio_file j = Path a"
proof
  fix j' assume "j' \<in> set (fst (run_jobs E s js))"
  from run_jobs_member [OF this] assms show "\<exists>a. audio_file j' = Path a"
    by (auto simp: process_single_job_identity)
qed

lemma process_all_jobs_audio:
  assumes "\<forall>j \<in> set (jobs s). \<exists>a. audio_file j = Path a"
  shows "\<forall>j \<in> set (jobs (snd (process_all_jobs E s))). \<exists>a. audio_file j = Path a"
  using process_all_jobs_jobs [of E s] run_jobs_audio [OF assms] assms by metis

lemma reachable_audio:
  "reachable E s \<Longrightarrow> \<forall>j \<in> set (jobs s). \<exists>a. audio_file j = Path a"
proof (induction rule: reachable.induct)
  case (r_init cfg w s)
  then have "jobs s = []"
    by (auto simp: WorkflowOrchestrator_def split: sum.splits)
  then show ?case by simp
next
  case (r_add s audio img plats jid)
  from add_job_jobs [of s audio img plats jid] r_add.IH show ?case by auto
next
  case (r_process s)
  from process_all_jobs_audio [OF r_process.IH] show ?case .
next
  case (r_retry s)
  have "\<forall>j \<in> set (jobs (s\<lparr>jobs := map reset_failed (jobs s)\<rparr>)). \<exists>a. audio_file j = Path a"
    using r_retry.IH by (auto simp: reset_failed_def)
  from process_all_jobs_audio [OF this] show ?case by (simp add: retry_failed_jobs_def)
next
  case (r_export s f s')
  then have "jobs s' = jobs s"
    by (auto simp: export_job_report_def Let_def split: sum.splits)
  with r_export.IH show ?case by simp
next
  case (r_clear s)
  then show ?case by (simp add: clear_jobs_def)
next
  case (r_world s w)
  then show ?case by simp
qed

lemma joinpath_last: "Path a = [a] \<Longrightarrow> last (joinpath d a) = a"
  by (simp add: joinpath_def)

lemma joinpath_one_part:
  assumes "Path a = [a]" and "Path b = [b]" and "a \<noteq> b"
  shows "joinpath d a \<noteq> joinpath d b"
proof
  assume "joinpath d a = joinpath d b"
  then have "last (joinpath d a) = last (joinpath d b)" by simp
  with assms show False by (simp add: joinpath_last)
qed

text \<open>
  C6, as amended. For two jobs of an orchestrator, the directories of the rendered
  videos differ whenever the two job identifiers differ and each is a path of one part,
  as every identifier that \<open>add_job\<close> generates is; the paths of the mastered audio
  are the same exactly when the audio files of the two jobs have the same stem.
\<close>

theorem output_paths_of_two_jobs:
  assumes "reachable E s" and "j1 \<in> set (jobs s)" and "j2 \<in> set (jobs s)"
  shows "(mastered_audio_path (config s) j1 = mastered_audio_path (config s) j2) =
           (stem (audio_file j1) = stem (audio_file j2)) \<and>
         (Path (job_id j1) = [job_id j1] \<and> Path (job_id j2) = [job_id j2] \<and>
          job_id j1 \<noteq> job_id j2 \<longrightarrow>
            job_videos_dir (config s) j1 \<noteq> job_videos_dir (config s) j2) \<and>
         (fst (add_job s audio img plats None) = Inr j \<longrightarrow> Path (job_id j) = [job_id j])"
proof (intro conjI impI)
  from reachable_audio [OF assms(1)] assms(2,3) obtain a1 a2
    where "audio_file j1 = Path a1" "audio_file j2 = Path a2" by blast
  then show "(mastered_audio_path (config s) j1 = mastered_audio_path (config s) j2) =
           (stem (audio_file j1) = stem (audio_file j2))"
    by (simp add: mastered_audio_path_parts)
next
  assume "Path (job_id j1) = [job_id j1] \<and> Path (job_id j2) = [job_id j2] \<and>
          job_id j1 \<noteq> job_id j2"
  then show "job_videos_dir (config s) j1 \<noteq> job_videos_dir (config s) j2"
    unfolding job_videos_dir_def by (intro joinpath_one_part) simp_all
next
  assume "fst (add_job s audio img plats None) = Inr j"
  then have "job_id j = stem (Path audio) @ ''_'' @ str_nat (length (jobs s))"
    by (auto simp: add_job_def Let_def split: if_splits)
  then show "Path (job_id j) = [job_id j]"
    by (simp only: generated_id_plain)
qed

lemma twice_queued_eval:
  "jobs twice_queued =
     [example_job, example_job\<lparr>job_id := ''a_1'', platforms := [''youtube'']\<rparr>]"
  "config twice_queued = WorkflowConfig_default"
proof -
  let ?s = "example_queued WorkflowConfig_default"
  have q: "?s = (example_orchestrator WorkflowConfig_default)\<lparr>jobs := [example_job]\<rparr>"
    by (simp add: example_queued_eval default_eval)
  have ex: "path_exists (world ?s) [''in'', ''a.wav'']" "path_exists (world ?s) [''cover.png'']"
    by (simp_all add: q example_orchestrator_eval default_eval path_exists_def)
  have j: "jobs ?s = [example_job]" by (simp add: q)
  show "jobs twice_queued =
     [example_job, example_job\<lparr>job_id := ''a_1'', platforms := [''youtube'']\<rparr>]"
    by (simp add: twice_queued_def add_job_def example_paths ex j supported_eval
        lower_examples str_nat.simps example_job_def Let_def)
  show "config twice_queued = WorkflowConfig_default"
    by (simp add: twice_queued_def add_job_def example_paths ex j supported_eval
        lower_examples Let_def q)
qed

text \<open>
  C6 as stated fails for the mastered audio: two jobs added for the same audio file
  have different identifiers and the same mastered-audio path.
\<close>

theorem shared_mastered_audio_counterexample:
  "map job_id (jobs twice_queued) = [''a_0'', ''a_1''] \<and>
   map (mastered_audio_path (config twice_queued)) (jobs twice_queued) =
     [[''output'', ''mastered_audio'', ''a_mastered.wav''],
      [''output'', ''mastered_audio'', ''a_mastered.wav'']]"
  by (simp add: twice_queued_eval example_job_fields mastered_audio_path_def
      mastered_audio_dir_def output_dir_def default_eval Path_def joinpath_def example_paths)

theorem output_paths_of_two_jobs_witness:
  "reachable tools_ok twice_queued \<and>
   jobs twice_queued =
     [example_job, example_job\<lparr>job_id := ''a_1'', platforms := [''youtube'']\<rparr>] \<and>
   stem (audio_file example_job) =
     stem (audio_file (example_job\<lparr>job_id := ''a_1'', platforms := [''youtube'']\<rparr>)) \<and>
   mastered_audio_path (config twice_queued) example_job =
     mastered_audio_path (config twice_queued)
       (example_job\<lparr>job_id := ''a_1'', platforms := [''youtube'']\<rparr>) \<and>
   Path ''a_0'' = [''a_0''] \<and> Path ''a_1'' = [''a_1''] \<and>
   job_videos_dir (config twice_queued) example_job \<noteq>
     job_videos_dir (config twice_queued)
       (example_job\<lparr>job_id := ''a_1'', platforms := [''youtube'']\<rparr>)"
proof -
  let ?j2 = "example_job\<lparr>job_id := ''a_1'', platforms := [''youtube'']\<rparr>"
  have r0: "reachable tools_ok (example_queued WorkflowConfig_default)"
    by (rule example_queued_reachable) (simp_all add: default_eval)
  have r: "reachable tools_ok twice_queued"
    unfolding twice_queued_def by (rule r_add [OF r0])
  have js: "jobs twice_queued = [example_job, ?j2]" by (rule twice_queued_eval)
  have m1: "example_job \<in> set (jobs twice_queued)" and m2: "?j2 \<in> set (jobs twice_queued)"
    by (simp_all add: js)
  have st: "stem (audio_file example_job) = stem (audio_file ?j2)" by simp
  have p: "Path ''a_0'' = [''a_0'']" "Path ''a_1'' = [''a_1'']"
    by (simp_all add: Path_def)
  have ids: "Path (job_id example_job) = [job_id example_job] \<and>
             Path (job_id ?j2) = [job_id ?j2] \<and> job_id example_job \<noteq> job_id ?j2"
    by (simp add: example_job_fields p)
  note t = output_paths_of_two_jobs [OF r m1 m2]
  from t st have a: "mastered_audio_path (config twice_queued) example_job =
                       mastered_audio_path (config twice_queued) ?j2"
    by blast
  from t ids have b: "job_videos_dir (config twice_queued) example_job \<noteq>
                        job_videos_dir (config twice_queued) ?j2"
    by blast
  from r js st a p b show ?thesis by (intro conjI)
qed

section \<open>The calls of the render stage\<close>

lemma record_results_Cons:
  "record_results d (c # cs) =
     record_results (AList.update (fst (call_entry c)) (snd (call_entry c)) d) cs"
  by (simp add: record_results_def)

lemma record_results_append:
  "record_results d (cs @ cs') = record_results (record_results d cs) cs'"
  by (simp add: record_results_def)

lemma record_results_Nil [simp]: "record_results d [] = d"
  by (simp add: record_results_def)

text \<open>
  A run of the inner loop that ends without an exception has called \<open>create_video\<close>
  once for each aspect ratio, in order, and has stored the entry of each call.
\<close>

lemma ratio_loop_calls:
  assumes "ratio_loop E s img aud od base pc rs results = (Inr results', s')"
  shows "\<exists>new. render_calls s' = render_calls s @ new \<and>
           map call_args new =
             map (\<lambda>r. (img, aud, video_output_path (video_generation (config s)) od base pc r,
                        pc, r)) rs \<and>
           (\<forall>c \<in> set new. rc_result c = Success \<or> rc_result c = Failure) \<and>
           results' = record_results results new"
  using assms
proof (induction rs arbitrary: s results)
  case Nil
  then show ?case by simp
next
  case (Cons r rs)
  let ?out = "video_output_path (video_generation (config s)) od base pc r"
  obtain o1 s1 where cv: "create_video E s img aud ?out pc r = (o1, s1)"
    by (cases "create_video E s img aud ?out pc r")
  note fr = create_video_frame [OF cv]
  let ?c = "\<lparr>rc_image = img, rc_audio = aud, rc_output = ?out, rc_platform = pc,
             rc_ratio = r, rc_result = o1\<rparr>"
  from fr have rc: "render_calls s1 = render_calls s @ [?c]" and cf: "config s1 = config s"
    by simp_all
  have ok: "o1 = Success \<or> o1 = Failure"
    using Cons.prems cv by (cases o1) (simp_all add: Let_def)
  have e: "call_entry ?c = (rendition_key pc r, if o1 = Success then Some ?out else None)"
    by (simp add: call_entry_def)
  from ok Cons.prems cv
  have rest: "ratio_loop E s1 img aud od base pc rs
                (AList.update (fst (call_entry ?c)) (snd (call_entry ?c)) results) =
              (Inr results', s')"
    by (auto simp: Let_def e)
  from Cons.IH [OF rest] obtain new where
    n1: "render_calls s' = render_calls s1 @ new" and
    n2: "map call_args new =
           map (\<lambda>r. (img, aud, video_output_path (video_generation (config s1)) od base pc r,
                      pc, r)) rs" and
    n3: "\<forall>c \<in> set new. rc_result c = Success \<or> rc_result c = Failure" and
    n4: "results' = record_results
           (AList.update (fst (call_entry ?c)) (snd (call_entry ?c)) results) new"
    by blast
  have "render_calls s' = render_calls s @ (?c # new)" by (simp add: n1 rc)
  moreover have "map call_args (?c # new) =
        map (\<lambda>r. (img, aud, video_output_path (video_generation (config s)) od base pc r,
                   pc, r)) (r # rs)"
    using n2 by (simp add: cf call_args_def)
  moreover have "\<forall>c \<in> set (?c # new). rc_result c = Success \<or> rc_result c = Failure"
    using n3 ok by simp
  moreover have "results' = record_results results (?c # new)"
    by (simp only: n4 record_results_Cons)
  ultimately show ?case by blast
qed

lemma renditions_Cons:
  "renditions (pc # pcs) = map (Pair pc) (aspect_ratios pc) @ renditions pcs"
  by (simp add: renditions_def)

lemma renditions_Nil [simp]: "renditions [] = []"
  by (simp add: renditions_def)

text \<open>The same for the outer loop, over the renditions of the platforms.\<close>

lemma platform_loop_calls:
  assumes "platform_loop E s img aud od base pcs results = (Inr results', s')"
  shows "\<exists>new. render_calls s' = render_calls s @ new \<and>
           map call_args new =
             map (\<lambda>(pc, r). (img, aud,
                    video_output_path (video_generation (config s)) od base pc r, pc, r))
               (renditions pcs) \<and>
           (\<forall>c \<in> set new. rc_result c = Success \<or> rc_result c = Failure) \<and>
           results' = record_results results new"
  using assms
proof (induction pcs arbitrary: s results)
  case Nil
  then show ?case by simp
next
  case (Cons pc pcs)
  from Cons.prems obtain w where
    mk: "mkdir_parents (world s) (platform_output_dir od pc) = Inr w"
    by (cases "mkdir_parents (world s) (platform_output_dir od pc)") simp_all
  let ?s0 = "s\<lparr>world := w\<rparr>"
  obtain r1 s1 where rl: "ratio_loop E ?s0 img aud od base pc (aspect_ratios pc) results = (r1, s1)"
    by (cases "ratio_loop E ?s0 img aud od base pc (aspect_ratios pc) results")
  from Cons.prems mk rl obtain results1 where r1: "r1 = Inr results1"
    by (cases r1) simp_all
  from Cons.prems mk rl r1
  have rest: "platform_loop E s1 img aud od base pcs results1 = (Inr results', s')"
    by simp
  from ratio_loop_calls [OF rl [unfolded r1]] obtain new1 where
    a1: "render_calls s1 = render_calls ?s0 @ new1" and
    a2: "map call_args new1 =
           map (\<lambda>r. (img, aud, video_output_path (video_generation (config ?s0)) od base pc r,
                      pc, r)) (aspect_ratios pc)" and
    a3: "\<forall>c \<in> set new1. rc_result c = Success \<or> rc_result c = Failure" and
    a4: "results1 = record_results results new1"
    by blast
  from ratio_loop_frame [OF rl] have cf: "config s1 = config s" by simp
  from Cons.IH [OF rest] obtain new2 where
    b1: "render_calls s' = render_calls s1 @ new2" and
    b2: "map call_args new2 =
           map (\<lambda>(pc, r). (img, aud,
                  video_output_path (video_generation (config s1)) od base pc r, pc, r))
             (renditions pcs)" and
    b3: "\<forall>c \<in> set new2. rc_result c = Success \<or> rc_result c = Failure" and
    b4: "results' = record_results results1 new2"
    by blast
  have "render_calls s' = render_calls s @ (new1 @ new2)" using a1 b1 by simp
  moreover have "map call_args (new1 @ new2) =
        map (\<lambda>(pc, r). (img, aud,
               video_output_path (video_generation (config s)) od base pc r, pc, r))
          (renditions (pc # pcs))"
    using a2 b2 by (simp add: renditions_Cons cf comp_def)
  moreover have "\<forall>c \<in> set (new1 @ new2). rc_result c = Success \<or> rc_result c = Failure"
    using a3 b3 by auto
  moreover have "results' = record_results results (new1 @ new2)"
    by (simp only: b4 a4 record_results_append)
  ultimately show ?case by blast
qed

section \<open>The catalogue\<close>

lemma catalogue_names:
  "map (\<lambda>(k, c). name c) PLATFORM_CONFIGS =
     [''Facebook'', ''Instagram'', ''YouTube'', ''TikTok'', ''Twitter'', ''LinkedIn'']"
  "map (\<lambda>(k, c). aspect_ratios c) PLATFORM_CONFIGS =
     [[LANDSCAPE, PORTRAIT], [SQUARE, PORTRAIT], [LANDSCAPE, PORTRAIT], [PORTRAIT],
      [SQUARE, LANDSCAPE], [LANDSCAPE, SQUARE, PORTRAIT]]"
  by (simp_all add: PLATFORM_CONFIGS_def facebook_def instagram_def youtube_def tiktok_def
      twitter_def linkedin_def)

lemma catalogue_configs: "map snd PLATFORM_CONFIGS =
    [facebook, instagram, youtube, tiktok, twitter, linkedin]"
  by (simp add: PLATFORM_CONFIGS_def)

lemma config_names:
  "name facebook = ''Facebook''" "name instagram = ''Instagram''" "name youtube = ''YouTube''"
  "name tiktok = ''TikTok''" "name twitter = ''Twitter''" "name linkedin = ''LinkedIn''"
  by (simp_all add: facebook_def instagram_def youtube_def tiktok_def twitter_def linkedin_def)

lemma config_ratios:
  "aspect_ratios facebook = [LANDSCAPE, PORTRAIT]" "aspect_ratios instagram = [SQUARE, PORTRAIT]"
  "aspect_ratios youtube = [LANDSCAPE, PORTRAIT]" "aspect_ratios tiktok = [PORTRAIT]"
  "aspect_ratios twitter = [SQUARE, LANDSCAPE]"
  "aspect_ratios linkedin = [LANDSCAPE, SQUARE, PORTRAIT]"
  by (simp_all add: facebook_def instagram_def youtube_def tiktok_def twitter_def linkedin_def)

text \<open>The configurations of the catalogue differ in their names.\<close>

lemma catalogue_distinct_names:
  "distinct (map name [facebook, instagram, youtube, tiktok, twitter, linkedin])"
  by (simp add: config_names)

lemma catalogue_distinct: "distinct (map snd PLATFORM_CONFIGS)"
  using catalogue_distinct_names unfolding distinct_map catalogue_configs by (rule conjunct1)

lemma catalogue_keys_distinct: "distinct (map fst PLATFORM_CONFIGS)"
  by (simp add: PLATFORM_CONFIGS_def)

text \<open>The keys of the renditions of the whole catalogue are pairwise different.\<close>

lemma catalogue_rendition_keys:
  "map (\<lambda>(pc, r). rendition_key pc r) (renditions (map snd PLATFORM_CONFIGS)) =
     [''Facebook_16:9'', ''Facebook_9:16'', ''Instagram_1:1'', ''Instagram_9:16'',
      ''YouTube_16:9'', ''YouTube_9:16'', ''TikTok_9:16'', ''Twitter_1:1'', ''Twitter_16:9'',
      ''LinkedIn_16:9'', ''LinkedIn_1:1'', ''LinkedIn_9:16'']"
  by (simp add: catalogue_configs renditions_def config_ratios rendition_key_def config_names)

lemma catalogue_rendition_keys_distinct:
  "distinct (map (\<lambda>(pc, r). rendition_key pc r) (renditions (map snd PLATFORM_CONFIGS)))"
  unfolding catalogue_rendition_keys by simp

section \<open>Platform lists without repetition\<close>

lemma get_platform_configs_all2:
  "get_platform_configs ps = Inr pcs \<Longrightarrow>
     list_all2 (\<lambda>p c. map_of PLATFORM_CONFIGS (lower p) = Some c) ps pcs"
proof (induction ps arbitrary: pcs)
  case Nil
  then show ?case by simp
next
  case (Cons p ps)
  from Cons.prems obtain c cs where
    c: "map_of PLATFORM_CONFIGS (lower p) = Some c" and
    cs: "get_platform_configs ps = Inr cs" and pcs: "pcs = c # cs"
    by (auto simp: get_platform_config_def split: option.splits sum.splits)
  from Cons.IH [OF cs] c pcs show ?case by simp
qed

lemma map_of_value_inj:
  assumes "distinct (map snd xs)" and "map_of xs a = Some c" and "map_of xs b = Some c"
  shows "a = b"
proof -
  from assms(2,3) have m: "(a, c) \<in> set xs" "(b, c) \<in> set xs"
    by (auto dest: map_of_SomeD)
  from assms(1) have i: "inj_on snd (set xs)" by (simp add: distinct_map)
  have "(a, c) = (b, c)" by (rule inj_onD [OF i _ m]) simp
  then show ?thesis by simp
qed

lemma all2_catalogue_distinct:
  assumes "list_all2 (\<lambda>p c. map_of PLATFORM_CONFIGS (lower p) = Some c) ps pcs"
    and "distinct (map lower ps)"
  shows "distinct pcs \<and> set pcs \<subseteq> set (map snd PLATFORM_CONFIGS)"
  using assms
proof (induction rule: list_all2_induct)
  case Nil
  then show ?case by simp
next
  case (Cons p ps c cs)
  then have IH: "distinct cs" "set cs \<subseteq> set (map snd PLATFORM_CONFIGS)" by simp_all
  have "c \<notin> set cs"
  proof
    assume "c \<in> set cs"
    then obtain i where i: "i < length cs" "cs ! i = c" by (auto simp: in_set_conv_nth)
    with Cons.hyps(2) have "map_of PLATFORM_CONFIGS (lower (ps ! i)) = Some c"
      by (auto simp: list_all2_conv_all_nth)
    from map_of_value_inj [OF catalogue_distinct Cons.hyps(1) this]
    have "lower p = lower (ps ! i)" .
    moreover from i Cons.hyps(2) have "i < length ps" by (simp add: list_all2_lengthD)
    ultimately have "lower p \<in> set (map lower ps)" by (auto intro!: imageI nth_mem)
    with Cons.prems show False by simp
  qed
  moreover from Cons.hyps(1) have "c \<in> set (map snd PLATFORM_CONFIGS)"
    by (force dest: map_of_SomeD)
  ultimately show ?case using IH by simp
qed

lemma catalogue_ratios_distinct:
  "pc \<in> set (map snd PLATFORM_CONFIGS) \<Longrightarrow> distinct (aspect_ratios pc)"
  unfolding catalogue_configs by (auto simp: config_ratios)

lemma renditions_distinct:
  "distinct pcs \<Longrightarrow> \<forall>pc \<in> set pcs. distinct (aspect_ratios pc) \<Longrightarrow> distinct (renditions pcs)"
proof (induction pcs)
  case Nil
  then show ?case by simp
next
  case (Cons pc pcs)
  have fst_in: "fst x \<in> set pcs" if "x \<in> set (renditions pcs)" for x
    using that by (auto simp: renditions_def)
  have "distinct (map (Pair pc) (aspect_ratios pc))"
    using Cons.prems by (simp add: distinct_map inj_on_def)
  moreover have "distinct (renditions pcs)" using Cons by simp
  moreover have "set (map (Pair pc) (aspect_ratios pc)) \<inter> set (renditions pcs) = {}"
    using Cons.prems fst_in by fastforce
  ultimately show ?case by (simp add: renditions_Cons)
qed

lemma renditions_mono: "set pcs \<subseteq> set pcs' \<Longrightarrow> set (renditions pcs) \<subseteq> set (renditions pcs')"
  by (auto simp: renditions_def)

text \<open>
  The renditions of platforms that are named once each, all of the catalogue, have
  pairwise different keys.
\<close>

lemma rendition_keys_distinct:
  assumes "get_platform_configs ps = Inr pcs" and "distinct (map lower ps)"
  shows "distinct (renditions pcs) \<and>
         distinct (map (\<lambda>(pc, r). rendition_key pc r) (renditions pcs))"
proof -
  from all2_catalogue_distinct [OF get_platform_configs_all2 [OF assms(1)] assms(2)]
  have d: "distinct pcs" and sub: "set pcs \<subseteq> set (map snd PLATFORM_CONFIGS)" by simp_all
  from sub have "\<forall>pc \<in> set pcs. distinct (aspect_ratios pc)"
    by (blast intro: catalogue_ratios_distinct)
  from renditions_distinct [OF d this] have dr: "distinct (renditions pcs)" .
  from catalogue_rendition_keys_distinct
  have "inj_on (\<lambda>(pc, r). rendition_key pc r) (set (renditions (map snd PLATFORM_CONFIGS)))"
    by (simp add: distinct_map)
  with renditions_mono [OF sub]
  have "inj_on (\<lambda>(pc, r). rendition_key pc r) (set (renditions pcs))"
    by (rule inj_on_subset [rotated])
  with dr show ?thesis by (simp add: distinct_map)
qed

section \<open>Results with pairwise different keys\<close>

lemma update_new_key: "k \<notin> fst ` set d \<Longrightarrow> AList.update k v d = d @ [(k, v)]"
  by (induction d) auto

lemma record_results_distinct:
  "distinct (map fst d @ map (\<lambda>c. fst (call_entry c)) cs) \<Longrightarrow>
     record_results d cs = d @ map call_entry cs"
proof (induction cs arbitrary: d)
  case Nil
  then show ?case by simp
next
  case (Cons c cs)
  from Cons.prems have k: "fst (call_entry c) \<notin> fst ` set d" by auto
  have u: "AList.update (fst (call_entry c)) (snd (call_entry c)) d = d @ [call_entry c]"
    by (simp add: update_new_key [OF k])
  from Cons.prems
  have "distinct (map fst (d @ [call_entry c]) @ map (\<lambda>c. fst (call_entry c)) cs)"
    by auto
  from Cons.IH [OF this] show ?case by (simp add: record_results_Cons u)
qed

section \<open>The render stage of a job\<close>

lemma call_args_pairs:
  assumes "map call_args new = map (\<lambda>(pc, r). (i, a, f pc r, pc, r)) rends"
  shows "map (\<lambda>c. (rc_platform c, rc_ratio c)) new = rends"
proof -
  have "map (\<lambda>c. (rc_platform c, rc_ratio c)) new = map (\<lambda>x. snd (snd (snd x))) (map call_args new)"
    by (simp add: call_args_def comp_def)
  also have "\<dots> = map (\<lambda>x. snd (snd (snd x))) (map (\<lambda>(pc, r). (i, a, f pc r, pc, r)) rends)"
    by (simp only: assms)
  also have "\<dots> = rends" by (simp add: comp_def split_beta)
  finally show ?thesis .
qed

lemma call_entry_keys:
  "map (\<lambda>c. fst (call_entry c)) new =
     map (\<lambda>(pc, r). rendition_key pc r) (map (\<lambda>c. (rc_platform c, rc_ratio c)) new)"
  by (simp add: call_entry_def comp_def)

lemma step2_result:
  assumes pl: "get_platform_configs (platforms job) = Inr pcs"
    and cm: "create_multi_platform_videos E s (image_file job)
               (mastered_audio_path (config s) job) (job_videos_dir (config s) job) pcs
               (Some (job_id job)) = (Inr results, s2)"
  shows "snd (step2_generate_videos E s job) = s2 \<and>
         output_files (fst (step2_generate_videos E s job)) = job_outputs results \<and>
         (if map fst (filter (\<lambda>(k, v). v = None) results) \<noteq> []
          then status (fst (step2_generate_videos E s job)) = Failed \<and>
               error_message (fst (step2_generate_videos E s job)) =
                 Some (''Failed to create videos: '' @
                       repr_list (map fst (filter (\<lambda>(k, v). v = None) results)))
          else status (fst (step2_generate_videos E s job)) = Completed \<and>
               error_message (fst (step2_generate_videos E s job)) = error_message job)"
  by (simp add: step2_generate_videos_def pl cm Let_def job_outputs_def)

lemma failed_entries:
  assumes "\<forall>c \<in> set new. rc_result c = Success \<or> rc_result c = Failure"
  shows "(map fst (filter (\<lambda>(k, v). v = None) (map call_entry new)) \<noteq> []) =
         (\<exists>c \<in> set new. rc_result c = Failure)"
proof -
  have "(map fst (filter (\<lambda>(k, v). v = None) (map call_entry new)) \<noteq> []) =
        (\<exists>c \<in> set new. snd (call_entry c) = None)"
    by (auto simp: filter_empty_conv split_beta)
  also have "\<dots> = (\<exists>c \<in> set new. rc_result c = Failure)"
  proof -
    have "(snd (call_entry c) = None) = (rc_result c = Failure)" if "c \<in> set new" for c
      using assms that by (cases "rc_result c") (auto simp: call_entry_def)
    then show ?thesis by blast
  qed
  finally show ?thesis .
qed

text \<open>
  C1, as amended. Take a job whose mastering stage has succeeded or has been skipped
  by resume, whose platforms are all in the catalogue, and whose rendering ends without
  an exception. The worker invokes \<open>create_video\<close> once for each entry of the
  platform list of the job and each aspect ratio that entry supports, in the order of
  the list, with the image of the job, the mastered audio and the output path of the
  rendition. The outputs of the job are the dictionary made by storing the outcome of
  each call under the key of its rendition, the path for a success and \<open>None\<close> for a
  failure, a later call replacing an earlier one under the same key. The job is failed,
  with a message that lists the keys whose recorded outcome is \<open>None\<close>, when there is
  such a key, and completed otherwise. When no platform is listed twice, no rendition is
  invoked twice, the outputs hold the outcome of every call, and the job is failed
  exactly when some call failed.
\<close>

theorem render_stage_per_rendition:
  assumes m: "fst (step1_master_audio E s job) = Success"
    and pl: "get_platform_configs (platforms job) = Inr pcs"
    and nr: "fst (create_multi_platform_videos E (snd (step1_master_audio E s job))
                    (image_file job) (mastered_audio_path (config s) job)
                    (job_videos_dir (config s) job) pcs (Some (job_id job))) = Inr results"
  shows "\<exists>new.
     render_calls (snd (process_single_job E s job)) = render_calls s @ new \<and>
     map call_args new =
       map (\<lambda>(pc, r). (image_file job, mastered_audio_path (config s) job,
              video_output_path (video_generation (config s)) (job_videos_dir (config s) job)
                (job_id job) pc r, pc, r))
         (renditions pcs) \<and>
     (\<forall>c \<in> set new. rc_result c = Success \<or> rc_result c = Failure) \<and>
     output_files (fst (process_single_job E s job)) = job_outputs (record_results [] new) \<and>
     (if map fst (filter (\<lambda>(k, v). v = None) (record_results [] new)) \<noteq> []
      then status (fst (process_single_job E s job)) = Failed \<and>
           error_message (fst (process_single_job E s job)) =
             Some (''Failed to create videos: '' @
                   repr_list (map fst (filter (\<lambda>(k, v). v = None) (record_results [] new))))
      else status (fst (process_single_job E s job)) = Completed \<and>
           error_message (fst (process_single_job E s job)) = error_message job) \<and>
     (distinct (map lower (platforms job)) \<longrightarrow>
        distinct (map (\<lambda>c. (rc_platform c, rc_ratio c)) new) \<and>
        record_results [] new = map call_entry new \<and>
        (status (fst (process_single_job E s job)) = Failed) =
          (\<exists>c \<in> set new. rc_result c = Failure))"
proof -
  let ?job = "job\<lparr>status := Processing\<rparr>"
  obtain s1 where st1: "step1_master_audio E s job = (Success, s1)"
    using m by (cases "step1_master_audio E s job") simp
  from step1_frame [OF st1] have cf: "config s1 = config s"
    and rc1: "render_calls s1 = render_calls s" by simp_all
  obtain s2 where cm: "create_multi_platform_videos E s1 (image_file job)
                         (mastered_audio_path (config s) job) (job_videos_dir (config s) job)
                         pcs (Some (job_id job)) = (Inr results, s2)"
    using nr st1
    by (cases "create_multi_platform_videos E s1 (image_file job)
                 (mastered_audio_path (config s) job) (job_videos_dir (config s) job)
                 pcs (Some (job_id job))") simp
  have psj: "process_single_job E s job = step2_generate_videos E s1 ?job"
    by (simp add: process_single_job_def st1)
  have pl': "get_platform_configs (platforms ?job) = Inr pcs" using pl by simp
  have cm': "create_multi_platform_videos E s1 (image_file ?job)
               (mastered_audio_path (config s1) ?job) (job_videos_dir (config s1) ?job) pcs
               (Some (job_id ?job)) = (Inr results, s2)"
    using cm by (simp add: cf)
  note r2 = step2_result [OF pl' cm']
  from cm have "platform_loop E s1 (image_file job) (mastered_audio_path (config s) job)
                  (job_videos_dir (config s) job) (job_id job) pcs [] = (Inr results, s2)"
    by (simp add: create_multi_platform_videos_def)
  from platform_loop_calls [OF this] obtain new where
    n1: "render_calls s2 = render_calls s1 @ new" and
    n2: "map call_args new =
           map (\<lambda>(pc, r). (image_file job, mastered_audio_path (config s) job,
                  video_output_path (video_generation (config s1))
                    (job_videos_dir (config s) job) (job_id job) pc r, pc, r))
             (renditions pcs)" and
    n3: "\<forall>c \<in> set new. rc_result c = Success \<or> rc_result c = Failure" and
    n4: "results = record_results [] new"
    by blast
  have c1: "render_calls (snd (process_single_job E s job)) = render_calls s @ new"
    using r2 n1 rc1 by (simp add: psj)
  have c2: "map call_args new =
       map (\<lambda>(pc, r). (image_file job, mastered_audio_path (config s) job,
              video_output_path (video_generation (config s)) (job_videos_dir (config s) job)
                (job_id job) pc r, pc, r))
         (renditions pcs)"
    using n2 by (simp only: cf)
  have c4: "output_files (fst (process_single_job E s job)) =
              job_outputs (record_results [] new)"
    using r2 by (simp add: psj n4)
  have c5: "if map fst (filter (\<lambda>(k, v). v = None) (record_results [] new)) \<noteq> []
      then status (fst (process_single_job E s job)) = Failed \<and>
           error_message (fst (process_single_job E s job)) =
             Some (''Failed to create videos: '' @
                   repr_list (map fst (filter (\<lambda>(k, v). v = None) (record_results [] new))))
      else status (fst (process_single_job E s job)) = Completed \<and>
           error_message (fst (process_single_job E s job)) = error_message job"
    using r2 unfolding psj n4 by simp
  have c6: "distinct (map (\<lambda>c. (rc_platform c, rc_ratio c)) new) \<and>
        record_results [] new = map call_entry new \<and>
        (status (fst (process_single_job E s job)) = Failed) =
          (\<exists>c \<in> set new. rc_result c = Failure)"
    if d: "distinct (map lower (platforms job))"
  proof -
    note k = rendition_keys_distinct [OF pl d]
    have pairs: "map (\<lambda>c. (rc_platform c, rc_ratio c)) new = renditions pcs"
      using c2 by (rule call_args_pairs)
    have d1: "distinct (map (\<lambda>c. (rc_platform c, rc_ratio c)) new)"
      using k by (simp only: pairs)
    have "distinct (map (\<lambda>c. fst (call_entry c)) new)"
      using k by (simp only: call_entry_keys pairs)
    then have d2: "record_results [] new = map call_entry new"
      using record_results_distinct [of "[]" new] by simp
    have "(status (fst (process_single_job E s job)) = Failed) =
            (map fst (filter (\<lambda>(k, v). v = None) (record_results [] new)) \<noteq> [])"
      using c5 by (auto split: if_splits)
    also have "\<dots> = (\<exists>c \<in> set new. rc_result c = Failure)"
      unfolding d2 by (rule failed_entries [OF n3])
    finally show ?thesis using d1 d2 by simp
  qed
  from c1 c2 n3 c4 c5 c6 show ?thesis by blast
qed

end
